theory Spec2Isabelle
  imports Complex_Main "HOL-Library.Monad_Syntax"
begin

section \<open>Python floats\<close>

text \<open>
  The label fields are Python floats. A float is modelled as a real number or one of the
  three non-finite values that \<^verbatim>\<open>float()\<close> can read from a label file (\<^verbatim>\<open>inf\<close>, \<^verbatim>\<open>-inf\<close>,
  \<^verbatim>\<open>nan\<close>). Finite arithmetic is exact: rounding error, overflow to infinity and the sign of
  zero are not modelled. The operations on the non-finite values follow IEEE 754.
\<close>

datatype pyfloat = Finite real | PInf | NInf | NaN

instantiation pyfloat :: "{uminus, plus, minus, times, inverse, abs, ord}"
begin

fun uminus_pyfloat :: "pyfloat \<Rightarrow> pyfloat" where
  "uminus_pyfloat (Finite a) = Finite (- a)"
| "uminus_pyfloat PInf = NInf"
| "uminus_pyfloat NInf = PInf"
| "uminus_pyfloat NaN = NaN"

fun plus_pyfloat :: "pyfloat \<Rightarrow> pyfloat \<Rightarrow> pyfloat" where
  "plus_pyfloat (Finite a) (Finite b) = Finite (a + b)"
| "plus_pyfloat NaN _ = NaN"
| "plus_pyfloat _ NaN = NaN"
| "plus_pyfloat PInf NInf = NaN"
| "plus_pyfloat NInf PInf = NaN"
| "plus_pyfloat PInf _ = PInf"
| "plus_pyfloat _ PInf = PInf"
| "plus_pyfloat NInf _ = NInf"
| "plus_pyfloat _ NInf = NInf"

definition minus_pyfloat :: "pyfloat \<Rightarrow> pyfloat \<Rightarrow> pyfloat" where
  "minus_pyfloat a b = a + (- b)"

fun times_pyfloat :: "pyfloat \<Rightarrow> pyfloat \<Rightarrow> pyfloat" where
  "times_pyfloat (Finite a) (Finite b) = Finite (a * b)"
| "times_pyfloat NaN _ = NaN"
| "times_pyfloat _ NaN = NaN"
| "times_pyfloat (Finite a) PInf = (if a = 0 then NaN else if 0 < a then PInf else NInf)"
| "times_pyfloat (Finite a) NInf = (if a = 0 then NaN else if 0 < a then NInf else PInf)"
| "times_pyfloat PInf (Finite b) = (if b = 0 then NaN else if 0 < b then PInf else NInf)"
| "times_pyfloat NInf (Finite b) = (if b = 0 then NaN else if 0 < b then NInf else PInf)"
| "times_pyfloat PInf PInf = PInf"
| "times_pyfloat PInf NInf = NInf"
| "times_pyfloat NInf PInf = NInf"
| "times_pyfloat NInf NInf = PInf"

text \<open>IEEE division; a zero divisor is a positive zero. Python's own \<^verbatim>\<open>/\<close> raises on a zero
  divisor before it gets here, see \<open>py_truediv\<close>.\<close>

fun divide_pyfloat :: "pyfloat \<Rightarrow> pyfloat \<Rightarrow> pyfloat" where
  "divide_pyfloat (Finite a) (Finite b) =
     (if b = 0 then (if a = 0 then NaN else if 0 < a then PInf else NInf) else Finite (a / b))"
| "divide_pyfloat NaN _ = NaN"
| "divide_pyfloat _ NaN = NaN"
| "divide_pyfloat (Finite a) PInf = Finite 0"
| "divide_pyfloat (Finite a) NInf = Finite 0"
| "divide_pyfloat PInf (Finite b) = (if 0 \<le> b then PInf else NInf)"
| "divide_pyfloat NInf (Finite b) = (if 0 \<le> b then NInf else PInf)"
| "divide_pyfloat PInf PInf = NaN"
| "divide_pyfloat PInf NInf = NaN"
| "divide_pyfloat NInf PInf = NaN"
| "divide_pyfloat NInf NInf = NaN"

definition inverse_pyfloat :: "pyfloat \<Rightarrow> pyfloat" where
  "inverse_pyfloat a = divide (Finite 1) a"

fun abs_pyfloat :: "pyfloat \<Rightarrow> pyfloat" where
  "abs_pyfloat (Finite a) = Finite \<bar>a\<bar>"
| "abs_pyfloat PInf = PInf"
| "abs_pyfloat NInf = PInf"
| "abs_pyfloat NaN = NaN"

text \<open>Comparisons with \<open>NaN\<close> are false.\<close>

fun less_pyfloat :: "pyfloat \<Rightarrow> pyfloat \<Rightarrow> bool" where
  "less_pyfloat (Finite a) (Finite b) = (a < b)"
| "less_pyfloat NaN _ = False"
| "less_pyfloat _ NaN = False"
| "less_pyfloat NInf NInf = False"
| "less_pyfloat NInf _ = True"
| "less_pyfloat PInf _ = False"
| "less_pyfloat _ PInf = True"
| "less_pyfloat _ NInf = False"

fun less_eq_pyfloat :: "pyfloat \<Rightarrow> pyfloat \<Rightarrow> bool" where
  "less_eq_pyfloat (Finite a) (Finite b) = (a \<le> b)"
| "less_eq_pyfloat NaN _ = False"
| "less_eq_pyfloat _ NaN = False"
| "less_eq_pyfloat NInf _ = True"
| "less_eq_pyfloat PInf PInf = True"
| "less_eq_pyfloat PInf _ = False"
| "less_eq_pyfloat _ PInf = True"
| "less_eq_pyfloat _ NInf = False"

instance ..

end

text \<open>The float \<^verbatim>\<open>==\<close>: \<open>NaN\<close> equals nothing, itself included.\<close>

definition float_eq :: "pyfloat \<Rightarrow> pyfloat \<Rightarrow> bool" where
  "float_eq a b = (a \<noteq> NaN \<and> a = b)"

datatype py_error =
  ZeroDivisionError | IndexError | ValueError | OverflowError | AttributeError | OSError

text \<open>Python's \<^verbatim>\<open>a / b\<close> on floats (and ints): a zero divisor raises. The handlers divide
  by the image size, which is positive once an image is loaded; that numpy operands would
  give an infinity or \<open>NaN\<close> there instead of raising is not modelled.\<close>

definition py_truediv :: "pyfloat \<Rightarrow> pyfloat \<Rightarrow> py_error + pyfloat" where
  "py_truediv a b = (if b = Finite 0 then Inl ZeroDivisionError else Inr (a / b))"

text \<open>The built-ins \<^verbatim>\<open>min(a, b)\<close> and \<^verbatim>\<open>max(a, b)\<close> keep the first argument unless the second
  is strictly smaller (larger), so a \<open>NaN\<close> second argument is dropped.\<close>

definition py_min :: "pyfloat \<Rightarrow> pyfloat \<Rightarrow> pyfloat" where
  "py_min a b = (if b < a then b else a)"

definition py_max :: "pyfloat \<Rightarrow> pyfloat \<Rightarrow> pyfloat" where
  "py_max a b = (if a < b then b else a)"

text \<open>\<^verbatim>\<open>min(xs)\<close> and \<^verbatim>\<open>max(xs)\<close> of a list; the empty list raises \<^verbatim>\<open>ValueError\<close>.\<close>

definition py_min_list :: "pyfloat list \<Rightarrow> py_error + pyfloat" where
  "py_min_list xs = (case xs of [] \<Rightarrow> Inl ValueError | x # rest \<Rightarrow> Inr (foldl py_min x rest))"

definition py_max_list :: "pyfloat list \<Rightarrow> py_error + pyfloat" where
  "py_max_list xs = (case xs of [] \<Rightarrow> Inl ValueError | x # rest \<Rightarrow> Inr (foldl py_max x rest))"

text \<open>\<^verbatim>\<open>int(x)\<close> of a float truncates towards zero and raises on the non-finite values.\<close>

fun py_int_of_float :: "pyfloat \<Rightarrow> py_error + int" where
  "py_int_of_float (Finite a) = Inr (if 0 \<le> a then \<lfloor>a\<rfloor> else \<lceil>a\<rceil>)"
| "py_int_of_float NaN = Inl ValueError"
| "py_int_of_float PInf = Inl OverflowError"
| "py_int_of_float NInf = Inl OverflowError"

text \<open>\<^verbatim>\<open>numpy.radians\<close>, \<^verbatim>\<open>numpy.cos\<close> and \<^verbatim>\<open>numpy.sin\<close> never raise: non-finite arguments
  give \<open>NaN\<close>.\<close>

definition np_radians :: "pyfloat \<Rightarrow> pyfloat" where
  "np_radians a = a * Finite (pi / 180)"

fun np_cos :: "pyfloat \<Rightarrow> pyfloat" where
  "np_cos (Finite a) = Finite (cos a)"
| "np_cos _ = NaN"

fun np_sin :: "pyfloat \<Rightarrow> pyfloat" where
  "np_sin (Finite a) = Finite (sin a)"
| "np_sin _ = NaN"

text \<open>Sequencing of computations that may raise.\<close>

definition then_do :: "'e + 'a \<Rightarrow> ('a \<Rightarrow> 'e + 'b) \<Rightarrow> 'e + 'b" where
  "then_do m f = (case m of Inl e \<Rightarrow> Inl e | Inr v \<Rightarrow> f v)"

text \<open>\<^verbatim>\<open>xs[i]\<close> and \<^verbatim>\<open>xs[i] = v\<close>: a negative index counts from the end, an index out of
  range raises.\<close>

definition py_position :: "nat \<Rightarrow> int \<Rightarrow> nat option" where
  "py_position n i =
     (if 0 \<le> i \<and> i < int n then Some (nat i)
      else if i < 0 \<and> - int n \<le> i then Some (nat (int n + i))
      else None)"

definition py_getitem :: "'a list \<Rightarrow> int \<Rightarrow> py_error + 'a" where
  "py_getitem xs i =
     (case py_position (length xs) i of None \<Rightarrow> Inl IndexError | Some k \<Rightarrow> Inr (xs ! k))"

definition py_setitem :: "'a list \<Rightarrow> int \<Rightarrow> 'a \<Rightarrow> py_error + 'a list" where
  "py_setitem xs i v =
     (case py_position (length xs) i of None \<Rightarrow> Inl IndexError | Some k \<Rightarrow> Inr (xs[k := v]))"

definition float_of_int :: "int \<Rightarrow> pyfloat" where
  "float_of_int i = Finite (of_int i)"

text \<open>\<^verbatim>\<open>str(i)\<close> of an int.\<close>

definition digit_char :: "nat \<Rightarrow> char" where
  "digit_char n = ''0123456789'' ! n"

fun str_nat :: "nat \<Rightarrow> string" where
  "str_nat n = (if n < 10 then [digit_char n] else str_nat (n div 10) @ [digit_char (n mod 10)])"

declare str_nat.simps [simp del]

definition str_int :: "int \<Rightarrow> string" where
  "str_int i = (if i < 0 then CHR ''-'' # str_nat (nat (- i)) else str_nat (nat i))"

text \<open>An int handed to a Qt method that takes a C \<^verbatim>\<open>int\<close>: PyQt raises when it does not
  fit in 32 bits.\<close>

definition c_int :: "int \<Rightarrow> py_error + int" where
  "c_int v = (if - 2147483648 \<le> v \<and> v \<le> 2147483647 then Inr v else Inl OverflowError)"

text \<open>\<^verbatim>\<open>numpy.arctan2\<close> and \<^verbatim>\<open>numpy.degrees\<close>.\<close>

definition real_arctan2 :: "real \<Rightarrow> real \<Rightarrow> real" where
  "real_arctan2 y x =
     (if 0 < x then arctan (y / x)
      else if x < 0 then (if 0 \<le> y then arctan (y / x) + pi else arctan (y / x) - pi)
      else if 0 < y then pi / 2 else if y < 0 then - (pi / 2) else 0)"

fun np_arctan2 :: "pyfloat \<Rightarrow> pyfloat \<Rightarrow> pyfloat" where
  "np_arctan2 (Finite y) (Finite x) = Finite (real_arctan2 y x)"
| "np_arctan2 NaN _ = NaN"
| "np_arctan2 _ NaN = NaN"
| "np_arctan2 (Finite y) PInf = Finite 0"
| "np_arctan2 (Finite y) NInf = Finite (if 0 \<le> y then pi else - pi)"
| "np_arctan2 PInf (Finite x) = Finite (pi / 2)"
| "np_arctan2 NInf (Finite x) = Finite (- (pi / 2))"
| "np_arctan2 PInf PInf = Finite (pi / 4)"
| "np_arctan2 PInf NInf = Finite (3 * pi / 4)"
| "np_arctan2 NInf PInf = Finite (- (pi / 4))"
| "np_arctan2 NInf NInf = Finite (- (3 * pi / 4))"

definition np_degrees :: "pyfloat \<Rightarrow> pyfloat" where
  "np_degrees a = a * Finite (180 / pi)"

section \<open>Qt rectangles\<close>

text \<open>
  \<^verbatim>\<open>QRectF\<close> as Qt implements it. PyQt5 gives \<^verbatim>\<open>QRectF\<close> a \<^verbatim>\<open>__bool__\<close> that returns
  \<^verbatim>\<open>isValid()\<close>, so in a condition a rectangle of zero width or height counts as false.
\<close>

record qrectf =
  rect_x :: pyfloat
  rect_y :: pyfloat
  rect_w :: pyfloat
  rect_h :: pyfloat

definition QRectF :: "pyfloat \<Rightarrow> pyfloat \<Rightarrow> pyfloat \<Rightarrow> pyfloat \<Rightarrow> qrectf" where
  "QRectF x y w h = \<lparr>rect_x = x, rect_y = y, rect_w = w, rect_h = h\<rparr>"

text \<open>\<^verbatim>\<open>QRectF(topLeft, bottomRight)\<close>.\<close>

definition QRectF_points :: "pyfloat \<times> pyfloat \<Rightarrow> pyfloat \<times> pyfloat \<Rightarrow> qrectf" where
  "QRectF_points p q = QRectF (fst p) (snd p) (fst q - fst p) (snd q - snd p)"

definition normalized :: "qrectf \<Rightarrow> qrectf" where
  "normalized r =
     (let r1 = (if rect_w r < Finite 0
                then r\<lparr>rect_x := rect_x r + rect_w r, rect_w := - rect_w r\<rparr> else r)
      in if rect_h r1 < Finite 0
         then r1\<lparr>rect_y := rect_y r1 + rect_h r1, rect_h := - rect_h r1\<rparr> else r1)"

definition isValid :: "qrectf \<Rightarrow> bool" where
  "isValid r = (Finite 0 < rect_w r \<and> Finite 0 < rect_h r)"

definition rect_truthy :: "qrectf option \<Rightarrow> bool" where
  "rect_truthy t = (case t of None \<Rightarrow> False | Some r \<Rightarrow> isValid r)"

text \<open>\<^verbatim>\<open>QRectF::contains(QPointF)\<close>: edges included, a rectangle without extent contains
  nothing.\<close>

definition contains :: "qrectf \<Rightarrow> pyfloat \<Rightarrow> pyfloat \<Rightarrow> bool" where
  "contains r px py =
     (let l = (if rect_w r < Finite 0 then rect_x r + rect_w r else rect_x r);
          rr = (if rect_w r < Finite 0 then rect_x r else rect_x r + rect_w r);
          t = (if rect_h r < Finite 0 then rect_y r + rect_h r else rect_y r);
          b = (if rect_h r < Finite 0 then rect_y r else rect_y r + rect_h r)
      in if float_eq l rr then False
         else if px < l \<or> rr < px then False
         else if float_eq t b then False
         else if py < t \<or> b < py then False
         else True)"

section \<open>Data model\<close>

text \<open>A label is the dictionary the tool keeps per box; \<open>angle\<close> is in degrees and may hold
  an integer taken from the angle slider.\<close>

record label =
  class_id :: int
  x_center :: pyfloat
  y_center :: pyfloat
  width :: pyfloat
  height :: pyfloat
  angle :: pyfloat

text \<open>
  The attributes of \<^verbatim>\<open>YOLOLabelTool\<close> that the label store and the mouse handlers read
  or write. \<open>current_image\<close> says whether an image is loaded; \<open>angle_slider\<close> and
  \<open>class_combo\<close> are the value of the angle slider and the current index of the class
  combo box; \<open>status_bar\<close> is the last message shown, by kind. The progress display and
  the configuration file that \<^verbatim>\<open>update_progress\<close> writes are not modelled: the write is
  taken to succeed.
\<close>

datatype message =
  Ready | AddedLabelFor string | ErrorLoadingLabels string | LabelsSaved | LabelUpdated
  | EditModeMessage

record tool =
  labels :: "label list"
  classes :: "string list"
  image_files :: "string list"
  current_index :: int
  current_image :: bool
  image_width :: int
  image_height :: int
  drawing :: bool
  start_point :: "real \<times> real"
  temp_rect :: "qrectf option"
  selected_label :: int
  drawing_mode :: bool
  edit_mode :: bool
  orientation_mode :: bool
  dragging :: bool
  rotating :: bool
  resizing :: bool
  resize_handle :: int
  drag_start :: "(real \<times> real) option"
  drag_offset :: "pyfloat \<times> pyfloat"
  original_label :: "label option"
  rotation_start :: "(real \<times> real) option"
  angle_slider :: int
  class_combo :: int
  status_bar :: message

datatype mouse_button = LeftButton | OtherButton

text \<open>A mouse event, with its position already mapped to scene (image pixel)
  coordinates.\<close>

record mouse_event =
  button :: mouse_button
  pos_x :: real
  pos_y :: real

section \<open>Painting\<close>

text \<open>
  \<^verbatim>\<open>update_labels_list\<close> and \<^verbatim>\<open>update_display\<close> change none of the attributes above, but
  both look up the class name of every label: \<^verbatim>\<open>self.classes[class_id]\<close> when the class id is
  below the number of classes, a made-up name otherwise. A negative class id counts from the
  end of the class table, and one below minus its length raises \<^verbatim>\<open>IndexError\<close>. Nothing
  else in the two loops can raise.
\<close>

definition label_class_name :: "tool \<Rightarrow> label \<Rightarrow> py_error + string" where
  "label_class_name st l =
     (if class_id l < int (length (classes st)) then py_getitem (classes st) (class_id l)
      else Inr (''Class '' @ str_int (class_id l)))"

fun class_names :: "tool \<Rightarrow> label list \<Rightarrow> py_error + string list" where
  "class_names st [] = Inr []"
| "class_names st (l # ls) =
     then_do (label_class_name st l) (\<lambda>n.
     then_do (class_names st ls) (\<lambda>ns. Inr (n # ns)))"

definition update_labels_list :: "tool \<Rightarrow> py_error + tool" where
  "update_labels_list st = then_do (class_names st (labels st)) (\<lambda>ns. Inr st)"

definition update_display :: "tool \<Rightarrow> py_error + tool" where
  "update_display st =
     (if current_image st then then_do (class_names st (labels st)) (\<lambda>ns. Inr st) else Inr st)"

definition update_display_with_temp :: "tool \<Rightarrow> py_error + tool" where
  "update_display_with_temp st = update_display st"

section \<open>Widgets that write back\<close>

text \<open>
  \<^verbatim>\<open>update_angle_from_slider\<close> is connected to the slider's \<^verbatim>\<open>valueChanged\<close> signal.
  \<^verbatim>\<open>QSlider.setValue\<close> bounds the value to the slider's range \<open>[-180, 180]\<close> and emits the
  signal only when the value changes.
\<close>

definition update_angle_from_slider :: "tool \<Rightarrow> py_error + tool" where
  "update_angle_from_slider st =
     (if 0 \<le> selected_label st
      then then_do (py_getitem (labels st) (selected_label st)) (\<lambda>l.
           then_do (py_setitem (labels st) (selected_label st)
                      (l\<lparr>angle := float_of_int (angle_slider st)\<rparr>)) (\<lambda>ls.
           then_do (update_display (st\<lparr>labels := ls\<rparr>)) update_labels_list))
      else Inr st)"

definition angle_slider_setValue :: "int \<Rightarrow> tool \<Rightarrow> py_error + tool" where
  "angle_slider_setValue v st =
     then_do (c_int v) (\<lambda>v.
     let b = max (- 180) (min 180 v)
     in if b = angle_slider st then Inr st
        else update_angle_from_slider (st\<lparr>angle_slider := b\<rparr>))"

text \<open>\<^verbatim>\<open>QComboBox.setCurrentIndex\<close>: an index that names no item leaves nothing selected. The
  combo box holds the class names, so its count is the length of \<open>classes\<close>.\<close>

definition class_combo_setCurrentIndex :: "int \<Rightarrow> tool \<Rightarrow> py_error + tool" where
  "class_combo_setCurrentIndex i st =
     then_do (c_int i) (\<lambda>i.
     Inr (st\<lparr>class_combo := (if 0 \<le> i \<and> i < int (length (classes st)) then i else - 1)\<rparr>))"

text \<open>\<^verbatim>\<open>update_label_info\<close>: the line edits it fills are read by nothing modelled here; the
  slider and the combo box are.\<close>

definition update_label_info :: "tool \<Rightarrow> py_error + tool" where
  "update_label_info st =
     (if 0 \<le> selected_label st \<and> selected_label st < int (length (labels st))
      then let l = labels st ! nat (selected_label st)
           in then_do (py_int_of_float (angle l)) (\<lambda>a.
              then_do (angle_slider_setValue a st) (\<lambda>st1.
              if class_id l < int (length (classes st1))
              then class_combo_setCurrentIndex (class_id l) st1 else Inr st1))
      else Inr st)"

text \<open>\<^verbatim>\<open>select_label\<close>: \<open>index\<close> is the row clicked in the list of labels.\<close>

definition select_label :: "int \<Rightarrow> tool \<Rightarrow> py_error + tool" where
  "select_label index st =
     (if 0 \<le> index \<and> index < int (length (labels st))
      then then_do (update_label_info (st\<lparr>selected_label := index\<rparr>)) update_display
      else Inr st)"

section \<open>Handles\<close>

text \<open>\<^verbatim>\<open>calculate_handles\<close>: the four rotated corners, then the four rotated edge
  midpoints, in image pixels.\<close>

definition calculate_handles :: "tool \<Rightarrow> label \<Rightarrow> (pyfloat \<times> pyfloat) list" where
  "calculate_handles st l =
     (let xc = x_center l * float_of_int (image_width st);
          yc = y_center l * float_of_int (image_height st);
          w = width l * float_of_int (image_width st);
          h = height l * float_of_int (image_height st);
          angle_rad = np_radians (angle l);
          corners_rel = [(- w / Finite 2, - h / Finite 2), (w / Finite 2, - h / Finite 2),
                         (w / Finite 2, h / Finite 2), (- w / Finite 2, h / Finite 2)];
          cos_a = np_cos angle_rad;
          sin_a = np_sin angle_rad;
          rot = (\<lambda>(dx, dy). (dx * cos_a - dy * sin_a + xc, dx * sin_a + dy * cos_a + yc));
          edge_centers = [(Finite 0, - h / Finite 2), (w / Finite 2, Finite 0),
                          (Finite 0, h / Finite 2), (- w / Finite 2, Finite 0)]
      in map rot corners_rel @ map rot edge_centers)"

text \<open>The test of one handle against the pointer in \<^verbatim>\<open>handle_mouse_press\<close>.\<close>

definition near_handle :: "real \<Rightarrow> real \<Rightarrow> pyfloat \<times> pyfloat \<Rightarrow> bool" where
  "near_handle x y hp =
     (\<bar>Finite x - fst hp\<bar> < Finite 10 \<and> \<bar>Finite y - snd hp\<bar> < Finite 10)"

text \<open>The loop over \<^verbatim>\<open>enumerate(handles)\<close>: the index of the first handle that passes the
  test, counted from \<open>i\<close>.\<close>

fun find_handle :: "real \<Rightarrow> real \<Rightarrow> (pyfloat \<times> pyfloat) list \<Rightarrow> nat \<Rightarrow> nat option" where
  "find_handle x y [] i = None"
| "find_handle x y (hp # hs) i = (if near_handle x y hp then Some i else find_handle x y hs (Suc i))"

text \<open>The unrotated box of a label, in image pixels.\<close>

definition label_rect :: "tool \<Rightarrow> label \<Rightarrow> qrectf" where
  "label_rect st l =
     (let xc = x_center l * float_of_int (image_width st);
          yc = y_center l * float_of_int (image_height st);
          w = width l * float_of_int (image_width st);
          h = height l * float_of_int (image_height st)
      in QRectF (xc - w / Finite 2) (yc - h / Finite 2) w h)"

text \<open>The loop that selects another label: the index of the first label whose unrotated
  box contains the pointer, counted from \<open>i\<close>.\<close>

fun find_label :: "tool \<Rightarrow> real \<Rightarrow> real \<Rightarrow> label list \<Rightarrow> nat \<Rightarrow> nat option" where
  "find_label st x y [] i = None"
| "find_label st x y (l # ls) i =
     (if contains (label_rect st l) (Finite x) (Finite y) then Some i
      else find_label st x y ls (Suc i))"

section \<open>Mouse handlers\<close>

text \<open>The handlers return the tool after the event, or the exception that escapes. The
  Boolean they hand back to Qt (event consumed or not), the cursor that a move sets when no
  gesture is on, and the progress display that a release refreshes are not modelled.\<close>

definition handle_mouse_press :: "mouse_event \<Rightarrow> tool \<Rightarrow> py_error + tool" where
  "handle_mouse_press ev st =
     (if button ev = LeftButton \<and> current_image st
      then let x = pos_x ev; y = pos_y ev
           in if drawing_mode st
              then Inr (st\<lparr>drawing := True, start_point := (x, y),
                          temp_rect := Some (QRectF (Finite x) (Finite y) (Finite 0) (Finite 0))\<rparr>)
              else if edit_mode st \<and> 0 \<le> selected_label st
              then then_do (py_getitem (labels st) (selected_label st)) (\<lambda>l.
                   case find_handle x y (calculate_handles st l) 0 of
                     Some i \<Rightarrow>
                       Inr (st\<lparr>resizing := True, resize_handle := int i,
                               drag_start := Some (x, y), original_label := Some l\<rparr>)
                   | None \<Rightarrow>
                       if contains (label_rect st l) (Finite x) (Finite y)
                       then Inr (st\<lparr>dragging := True, drag_start := Some (x, y),
                                   drag_offset :=
                                     (Finite x - x_center l * float_of_int (image_width st),
                                      Finite y - y_center l * float_of_int (image_height st)),
                                   original_label := Some l\<rparr>)
                       else (case find_label st x y (labels st) 0 of
                               Some i \<Rightarrow>
                                 then_do (update_labels_list (st\<lparr>selected_label := int i\<rparr>))
                                   (\<lambda>st1.
                                 then_do (update_label_info st1) update_display)
                             | None \<Rightarrow> Inr st))
              else if orientation_mode st \<and> 0 \<le> selected_label st
              then Inr (st\<lparr>rotating := True, rotation_start := Some (x, y)\<rparr>)
              else Inr st
      else Inr st)"

text \<open>The clamps written out in the handlers and in \<^verbatim>\<open>update_label\<close>.\<close>

definition clamp_center :: "pyfloat \<Rightarrow> pyfloat" where
  "clamp_center v = py_max (Finite 0) (py_min (Finite 1) v)"

definition clamp_size :: "pyfloat \<Rightarrow> pyfloat" where
  "clamp_size v = py_max (Finite (1 / 1000)) (py_min (Finite 1) v)"

text \<open>\<^verbatim>\<open>self.original_label\<close> exists only once a press has stored it.\<close>

definition get_original_label :: "tool \<Rightarrow> py_error + label" where
  "get_original_label st = (case original_label st of None \<Rightarrow> Inl AttributeError | Some l \<Rightarrow> Inr l)"

text \<open>The corner branch of a resize: the axis-aligned box of the four corners, one of them
  replaced by the pointer.\<close>

definition resize_corner :: "tool \<Rightarrow> (pyfloat \<times> pyfloat) list \<Rightarrow> label \<Rightarrow> py_error + label" where
  "resize_corner st modified_corners l =
     (let xs = map fst modified_corners; ys = map snd modified_corners
      in then_do (py_min_list xs) (\<lambda>min_xs.
         then_do (py_truediv min_xs (float_of_int (image_width st))) (\<lambda>new_x_min.
         then_do (py_min_list ys) (\<lambda>min_ys.
         then_do (py_truediv min_ys (float_of_int (image_height st))) (\<lambda>new_y_min.
         then_do (py_max_list xs) (\<lambda>max_xs.
         then_do (py_truediv max_xs (float_of_int (image_width st))) (\<lambda>new_x_max.
         then_do (py_max_list ys) (\<lambda>max_ys.
         then_do (py_truediv max_ys (float_of_int (image_height st))) (\<lambda>new_y_max.
         Inr (l\<lparr>x_center := (new_x_min + new_x_max) / Finite 2,
                 y_center := (new_y_min + new_y_max) / Finite 2,
                 width := new_x_max - new_x_min,
                 height := new_y_max - new_y_min\<rparr>))))))))))"

text \<open>The edge branch of a resize (handles 4 to 7).\<close>

definition resize_edge :: "tool \<Rightarrow> real \<Rightarrow> real \<Rightarrow> label \<Rightarrow> label \<Rightarrow> py_error + label" where
  "resize_edge st x y original l =
     (let edge_idx = resize_handle st - 4
      in if edge_idx = 0 \<or> edge_idx = 2
         then then_do (py_truediv
                         (Finite y - y_center original * float_of_int (image_height st))
                         (float_of_int (image_height st) * height original / Finite 2)) (\<lambda>scale.
              Inr (l\<lparr>height := height original * (Finite 1 + scale)\<rparr>))
         else then_do (py_truediv
                         (Finite x - x_center original * float_of_int (image_width st))
                         (float_of_int (image_width st) * width original / Finite 2)) (\<lambda>scale.
              Inr (l\<lparr>width := width original * (Finite 1 + scale)\<rparr>)))"

definition keep_within_bounds :: "label \<Rightarrow> label" where
  "keep_within_bounds l =
     l\<lparr>x_center := clamp_center (x_center l), y_center := clamp_center (y_center l),
       width := clamp_size (width l), height := clamp_size (height l)\<rparr>"

definition handle_mouse_move :: "mouse_event \<Rightarrow> tool \<Rightarrow> py_error + tool" where
  "handle_mouse_move ev st =
     (let x = pos_x ev; y = pos_y ev
      in if drawing st \<and> drawing_mode st
         then update_display_with_temp
                (st\<lparr>temp_rect :=
                      Some (normalized (QRectF_points
                              (Finite (fst (start_point st)), Finite (snd (start_point st)))
                              (Finite x, Finite y)))\<rparr>)
         else if dragging st \<and> edit_mode st \<and> 0 \<le> selected_label st
         then then_do (py_getitem (labels st) (selected_label st)) (\<lambda>l.
              then_do (get_original_label st) (\<lambda>original.
              then_do (py_truediv (Finite x - fst (drag_offset st))
                         (float_of_int (image_width st))) (\<lambda>new_x_center.
              then_do (py_truediv (Finite y - snd (drag_offset st))
                         (float_of_int (image_height st))) (\<lambda>new_y_center.
              then_do (py_setitem (labels st) (selected_label st)
                         (l\<lparr>x_center := clamp_center new_x_center,
                            y_center := clamp_center new_y_center\<rparr>)) (\<lambda>ls.
              then_do (update_display (st\<lparr>labels := ls\<rparr>)) (\<lambda>st1.
              then_do (update_label_info st1) update_labels_list))))))
         else if resizing st \<and> edit_mode st \<and> 0 \<le> selected_label st
         then then_do (py_getitem (labels st) (selected_label st)) (\<lambda>l.
              then_do (get_original_label st) (\<lambda>original.
              then_do (py_setitem (take 4 (calculate_handles st original)) (resize_handle st)
                         (Finite x, Finite y)) (\<lambda>modified_corners.
              then_do (if resize_handle st < 4 then resize_corner st modified_corners l
                       else resize_edge st x y original l) (\<lambda>l1.
              then_do (py_setitem (labels st) (selected_label st) (keep_within_bounds l1)) (\<lambda>ls.
              then_do (update_display (st\<lparr>labels := ls\<rparr>)) (\<lambda>st1.
              then_do (update_label_info st1) update_labels_list))))))
         else if rotating st \<and> orientation_mode st \<and> 0 \<le> selected_label st
         then then_do (py_getitem (labels st) (selected_label st)) (\<lambda>l.
              let dx = Finite x - x_center l * float_of_int (image_width st);
                  dy = Finite y - y_center l * float_of_int (image_height st);
                  a = np_degrees (np_arctan2 dy dx)
              in then_do (py_setitem (labels st) (selected_label st) (l\<lparr>angle := a\<rparr>)) (\<lambda>ls.
                 then_do (py_int_of_float a) (\<lambda>i.
                 then_do (angle_slider_setValue i (st\<lparr>labels := ls\<rparr>)) (\<lambda>st1.
                 then_do (update_display st1) update_labels_list))))
         else Inr st)"

text \<open>The label that a release in draw mode appends for the rectangle drawn.\<close>

definition new_label :: "tool \<Rightarrow> qrectf \<Rightarrow> py_error + label" where
  "new_label st rect =
     then_do (py_truediv (rect_x rect + rect_w rect / Finite 2) (float_of_int (image_width st)))
       (\<lambda>xc.
     then_do (py_truediv (rect_y rect + rect_h rect / Finite 2) (float_of_int (image_height st)))
       (\<lambda>yc.
     then_do (py_truediv (rect_w rect) (float_of_int (image_width st))) (\<lambda>w.
     then_do (py_truediv (rect_h rect) (float_of_int (image_height st))) (\<lambda>h.
     Inr \<lparr>class_id = (if class_combo st < 0 then 0 else class_combo st),
          x_center = clamp_center xc, y_center = clamp_center yc,
          width = clamp_size w, height = clamp_size h,
          angle = float_of_int (angle_slider st)\<rparr>))))"

definition class_name :: "tool \<Rightarrow> int \<Rightarrow> string" where
  "class_name st c = (if c < int (length (classes st)) then classes st ! nat c else ''Unknown'')"

definition end_gesture :: "tool \<Rightarrow> tool" where
  "end_gesture st = st\<lparr>dragging := False, resizing := False, rotating := False,
                        resize_handle := - 1\<rparr>"

definition handle_mouse_release :: "mouse_event \<Rightarrow> tool \<Rightarrow> py_error + tool" where
  "handle_mouse_release ev st =
     (if button ev = LeftButton
      then (case temp_rect st of
              Some rect \<Rightarrow>
                if drawing st \<and> isValid rect \<and> drawing_mode st
                then then_do (new_label st rect) (\<lambda>l.
                     then_do (update_labels_list
                                (st\<lparr>labels := labels st @ [l], drawing := False,
                                   temp_rect := None\<rparr>)) (\<lambda>st1.
                     then_do (update_display st1) (\<lambda>st2.
                     Inr (st2\<lparr>status_bar := AddedLabelFor (class_name st (class_id l))\<rparr>))))
                else Inr (end_gesture st)
            | None \<Rightarrow> Inr (end_gesture st))
      else Inr st)"

section \<open>Reading and writing numbers\<close>

text \<open>
  A character here is a code point below 256, so a string is a Python string of such
  characters. White space is what \<^verbatim>\<open>str.isspace\<close> accepts among them, which includes
  U+0085 and U+00A0; the only decimal digits among them are the ASCII ones. Characters from
  256 on are not modelled, nor is the limit CPython puts on the number of digits
  \<^verbatim>\<open>int()\<close> converts.
\<close>

definition is_space :: "char \<Rightarrow> bool" where
  "is_space c = (c \<in> set [CHR 0x09, CHR 0x0A, CHR 0x0B, CHR 0x0C, CHR 0x0D,
                           CHR 0x1C, CHR 0x1D, CHR 0x1E, CHR 0x1F, CHR '' '',
                           CHR 0x85, CHR 0xA0])"

definition is_digit :: "char \<Rightarrow> bool" where
  "is_digit c = (c \<in> set ''0123456789'')"

definition digit_value :: "char \<Rightarrow> nat" where
  "digit_value c = length (takeWhile (\<lambda>d. d \<noteq> c) ''0123456789'')"

definition lower :: "char \<Rightarrow> char" where
  "lower c = (case map_of (zip ''ABCDEFGHIJKLMNOPQRSTUVWXYZ'' ''abcdefghijklmnopqrstuvwxyz'') c of
                Some d \<Rightarrow> d | None \<Rightarrow> c)"

text \<open>\<^verbatim>\<open>s.strip()\<close> and \<^verbatim>\<open>s.split()\<close>.\<close>

definition py_strip :: "string \<Rightarrow> string" where
  "py_strip s = rev (dropWhile is_space (rev (dropWhile is_space s)))"

fun split_from :: "string \<Rightarrow> string \<Rightarrow> string list" where
  "split_from tok [] = (if tok = [] then [] else [tok])"
| "split_from tok (c # cs) =
     (if is_space c then (if tok = [] then split_from [] cs else tok # split_from [] cs)
      else split_from (tok @ [c]) cs)"

definition py_split :: "string \<Rightarrow> string list" where
  "py_split s = split_from [] s"

text \<open>A digit part of a numeric literal: digits, with single underscores allowed between
  them. \<open>digit_run\<close> reads on after a digit; both return the digits read and the rest.\<close>

fun digit_run :: "string \<Rightarrow> string \<times> string" where
  "digit_run [] = ([], [])"
| "digit_run [c] = (if is_digit c then ([c], []) else ([], [c]))"
| "digit_run (c # d # cs) =
     (if is_digit c then (case digit_run (d # cs) of (ds, r) \<Rightarrow> (c # ds, r))
      else if c = CHR ''_'' \<and> is_digit d then (case digit_run cs of (ds, r) \<Rightarrow> (d # ds, r))
      else ([], c # d # cs))"

definition digit_part :: "string \<Rightarrow> string \<times> string" where
  "digit_part s =
     (case s of [] \<Rightarrow> ([], [])
      | c # cs \<Rightarrow> if is_digit c then (case digit_run cs of (ds, r) \<Rightarrow> (c # ds, r)) else ([], s))"

definition nat_of_digits :: "string \<Rightarrow> nat" where
  "nat_of_digits ds = foldl (\<lambda>a c. 10 * a + digit_value c) 0 ds"

text \<open>An optional sign: the factor it stands for and the rest.\<close>

definition sign_part :: "string \<Rightarrow> int \<times> string" where
  "sign_part s =
     (case s of [] \<Rightarrow> (1, [])
      | c # cs \<Rightarrow> if c = CHR ''+'' then (1, cs) else if c = CHR ''-'' then (- 1, cs) else (1, s))"

text \<open>\<^verbatim>\<open>int(s)\<close> of a string; \<open>None\<close> is \<^verbatim>\<open>ValueError\<close>.\<close>

definition py_int :: "string \<Rightarrow> int option" where
  "py_int s =
     (case sign_part (py_strip s) of (sg, t) \<Rightarrow>
        (case digit_part t of (ds, r) \<Rightarrow>
           if ds \<noteq> [] \<and> r = [] then Some (sg * int (nat_of_digits ds)) else None))"

text \<open>The exponent of a float literal: \<open>Some e\<close> for a well-formed one, \<open>Some 0\<close> for none.\<close>

definition exponent_part :: "string \<Rightarrow> int option" where
  "exponent_part s =
     (case s of [] \<Rightarrow> Some 0
      | c # cs \<Rightarrow>
          if c = CHR ''e'' \<or> c = CHR ''E''
          then (case sign_part cs of (sg, t) \<Rightarrow>
                  (case digit_part t of (ds, r) \<Rightarrow>
                     if ds \<noteq> [] \<and> r = [] then Some (sg * int (nat_of_digits ds)) else None))
          else None)"

definition scale10 :: "real \<Rightarrow> int \<Rightarrow> real" where
  "scale10 m e = (if 0 \<le> e then m * 10 ^ nat e else m / 10 ^ nat (- e))"

text \<open>An unsigned decimal literal: \<^verbatim>\<open>digits\<close>, \<^verbatim>\<open>digits.\<close>, \<^verbatim>\<open>digits.digits\<close> or
  \<^verbatim>\<open>.digits\<close>, then an optional exponent.\<close>

definition decimal_literal :: "string \<Rightarrow> real option" where
  "decimal_literal s =
     (case digit_part s of (ip, r1) \<Rightarrow>
        (case (case r1 of [] \<Rightarrow> ([], r1)
               | c # cs \<Rightarrow> if c = CHR ''.'' then digit_part cs else ([], r1)) of (fp, r2) \<Rightarrow>
           if ip = [] \<and> fp = [] then None
           else map_option
                  (scale10 (real (nat_of_digits ip) + real (nat_of_digits fp) / 10 ^ length fp))
                  (exponent_part r2)))"

text \<open>\<^verbatim>\<open>float(s)\<close> of a string; \<open>None\<close> is \<^verbatim>\<open>ValueError\<close>.\<close>

definition py_float :: "string \<Rightarrow> pyfloat option" where
  "py_float s =
     (case sign_part (py_strip s) of (sg, t) \<Rightarrow>
        if map lower t = ''inf'' \<or> map lower t = ''infinity''
        then Some (if sg < 0 then NInf else PInf)
        else if map lower t = ''nan'' then Some NaN
        else map_option (\<lambda>m. Finite (of_int sg * m)) (decimal_literal t))"

text \<open>Rounding to the nearest integer, ties to even, as the float formatter does.\<close>

definition round_half_even :: "real \<Rightarrow> int" where
  "round_half_even x =
     (if x - of_int \<lfloor>x\<rfloor> < 1 / 2 then \<lfloor>x\<rfloor>
      else if 1 / 2 < x - of_int \<lfloor>x\<rfloor> then \<lfloor>x\<rfloor> + 1
      else if even \<lfloor>x\<rfloor> then \<lfloor>x\<rfloor> else \<lfloor>x\<rfloor> + 1)"

definition pad6 :: "nat \<Rightarrow> string" where
  "pad6 m = map (\<lambda>k. digit_char (m div 10 ^ k mod 10)) [5, 4, 3, 2, 1, 0]"

text \<open>\<^verbatim>\<open>f"{x:.6f}"\<close>: the sign, the integer part, a point and six decimals.\<close>

fun format_6f :: "pyfloat \<Rightarrow> string" where
  "format_6f (Finite a) =
     (let n = nat (round_half_even (\<bar>a\<bar> * 1000000))
      in (if a < 0 then ''-'' else []) @ str_nat (n div 1000000) @ ''.'' @ pad6 (n mod 1000000))"
| "format_6f PInf = ''inf''"
| "format_6f NInf = ''-inf''"
| "format_6f NaN = ''nan''"

section \<open>Label files\<close>

text \<open>
  What the file system holds at the label path of the current image: no file; a file that
  \<^verbatim>\<open>open\<close> refuses with an \<^verbatim>\<open>OSError\<close>, with the text of the exception; a file with the lines that iterating
  over it yields; or such a file whose reading raises after these lines. A write that fails
  half-way is not modelled.
\<close>

datatype label_file =
  Missing | Unopenable string | Opened "string list" | Unreadable "string list" string

text \<open>One line of a label file: the body of the loop in \<^verbatim>\<open>load_yolo_labels\<close>. \<open>None\<close> is a
  line that is passed over.\<close>

definition parse_line :: "string \<Rightarrow> label option" where
  "parse_line line =
     (let parts = py_split (py_strip line)
      in if 5 \<le> length parts
         then do {
           c \<leftarrow> py_int (parts ! 0);
           x \<leftarrow> py_float (parts ! 1);
           y \<leftarrow> py_float (parts ! 2);
           w \<leftarrow> py_float (parts ! 3);
           h \<leftarrow> py_float (parts ! 4);
           a \<leftarrow> (if 5 < length parts then py_float (parts ! 5) else Some (Finite 0));
           Some \<lparr>class_id = c, x_center = x, y_center = y, width = w, height = h, angle = a\<rparr>
         }
         else None)"

fun read_labels :: "label list \<Rightarrow> string list \<Rightarrow> label list" where
  "read_labels acc [] = acc"
| "read_labels acc (line # rest) =
     (case parse_line line of
        Some l \<Rightarrow> read_labels (acc @ [l]) rest
      | None \<Rightarrow> read_labels acc rest)"

text \<open>The part of \<^verbatim>\<open>load_yolo_labels\<close> that looks at the file, with its
  \<^verbatim>\<open>try\<close> and \<^verbatim>\<open>except\<close>; \<open>st0\<close> is the tool with its labels already cleared.\<close>

definition read_label_file :: "label_file \<Rightarrow> tool \<Rightarrow> tool" where
  "read_label_file file st0 =
     (case file of
        Missing \<Rightarrow> st0
      | Unopenable e \<Rightarrow> st0\<lparr>status_bar := ErrorLoadingLabels e\<rparr>
      | Opened lines \<Rightarrow> st0\<lparr>labels := read_labels [] lines\<rparr>
      | Unreadable lines e \<Rightarrow>
          st0\<lparr>labels := read_labels [] lines, status_bar := ErrorLoadingLabels e\<rparr>)"

text \<open>\<^verbatim>\<open>load_yolo_labels\<close> ends, outside the \<^verbatim>\<open>try\<close>, by repainting the list of
  labels.\<close>

definition load_yolo_labels :: "label_file \<Rightarrow> tool \<Rightarrow> py_error + tool" where
  "load_yolo_labels file st =
     (let st0 = st\<lparr>labels := []\<rparr>
      in if image_files st = [] \<or> current_index st < 0 then Inr st0
         else then_do (py_getitem (image_files st) (current_index st)) (\<lambda>name.
              update_labels_list (read_label_file file st0)))"

text \<open>The line that \<^verbatim>\<open>save_labels\<close> writes for a label.\<close>

definition label_line :: "label \<Rightarrow> string" where
  "label_line l =
     str_int (class_id l) @ '' '' @ format_6f (x_center l) @ '' '' @ format_6f (y_center l) @ '' ''
     @ format_6f (width l) @ '' '' @ format_6f (height l) @ '' '' @ format_6f (angle l)
     @ [CHR 0x0A]"

text \<open>\<^verbatim>\<open>save_labels\<close> returns the tool and the file at the label path afterwards.\<close>

definition save_labels :: "label_file \<Rightarrow> tool \<Rightarrow> py_error + tool \<times> label_file" where
  "save_labels file st =
     (if current_index st < 0 \<or> image_files st = [] then Inr (st, file)
      else then_do (py_getitem (image_files st) (current_index st)) (\<lambda>name.
           case file of
             Unopenable e \<Rightarrow> Inr (st, file)
           | _ \<Rightarrow> Inr (st\<lparr>status_bar := LabelsSaved\<rparr>, Opened (map label_line (labels st)))))"

text \<open>\<^verbatim>\<open>load_image\<close>: \<open>decoded\<close> is the width and height of the image read, or \<open>None\<close> when it
  cannot be read. Any exception ends in a message box and leaves the tool as it was when
  raised: one out of the repaint at the end of the load leaves the labels read.\<close>

definition load_image :: "(int \<times> int) option \<Rightarrow> label_file \<Rightarrow> tool \<Rightarrow> tool" where
  "load_image decoded file st =
     (if 0 \<le> current_index st \<and> current_index st < int (length (image_files st))
      then (case decoded of
              None \<Rightarrow> st
            | Some (w, h) \<Rightarrow>
                (let st1 = st\<lparr>current_image := True, image_width := w, image_height := h\<rparr>
                 in case load_yolo_labels file st1 of
                      Inr st2 \<Rightarrow> st2
                    | Inl e \<Rightarrow> read_label_file file (st1\<lparr>labels := []\<rparr>)))
      else st)"

section \<open>Classes and the tool at start\<close>

text \<open>\<^verbatim>\<open>update_class_list\<close> refills the combo box: its first item becomes current.\<close>

definition update_class_list :: "tool \<Rightarrow> tool" where
  "update_class_list st = st\<lparr>class_combo := (if classes st = [] then - 1 else 0)\<rparr>"

text \<open>\<^verbatim>\<open>remove_class\<close>: \<open>current_row\<close> is the row selected in the class list and \<open>reply\<close> the
  answer to the question asked. Writing the configuration file is not modelled.\<close>

definition remove_class :: "int \<Rightarrow> bool \<Rightarrow> tool \<Rightarrow> py_error + tool" where
  "remove_class current_row reply st =
     (if 0 \<le> current_row
      then then_do (py_getitem (classes st) current_row) (\<lambda>name.
           if reply
           then Inr (update_class_list
                  (st\<lparr>classes := take (nat current_row) (classes st)
                                   @ drop (Suc (nat current_row)) (classes st)\<rparr>))
           else Inr st)
      else Inr st)"

text \<open>The tool after \<^verbatim>\<open>__init__\<close>: \<open>config\<close> is the class list of the configuration file,
  if there is one that can be read.\<close>

definition initial_tool :: "string list option \<Rightarrow> tool" where
  "initial_tool config =
     update_class_list
       \<lparr>labels = [],
        classes = (case config of None \<Rightarrow> [''object'']
                   | Some cs \<Rightarrow> if cs = [] then [''object''] else cs),
        image_files = [], current_index = - 1,
        current_image = False, image_width = 0, image_height = 0,
        drawing = False, start_point = (0, 0), temp_rect = None,
        selected_label = - 1,
        drawing_mode = True, edit_mode = False, orientation_mode = False,
        dragging = False, rotating = False, resizing = False, resize_handle = - 1,
        drag_start = None, drag_offset = (Finite 0, Finite 0),
        original_label = None, rotation_start = None,
        angle_slider = 0, class_combo = - 1, status_bar = Ready\<rparr>"

definition set_edit_mode :: "tool \<Rightarrow> tool" where
  "set_edit_mode st =
     st\<lparr>drawing_mode := False, edit_mode := True, orientation_mode := False,
        status_bar := EditModeMessage\<rparr>"

text \<open>\<^verbatim>\<open>update_label\<close>: the four strings are the texts of the line edits. A text that is no
  number ends in a warning box and changes nothing; an \<^verbatim>\<open>IndexError\<close> of the store or of
  the repaints after it is not caught.\<close>

definition update_label :: "string \<Rightarrow> string \<Rightarrow> string \<Rightarrow> string \<Rightarrow> tool \<Rightarrow> py_error + tool" where
  "update_label x_text y_text w_text h_text st =
     (if 0 \<le> selected_label st
      then (case do { x \<leftarrow> py_float x_text; y \<leftarrow> py_float y_text;
                      w \<leftarrow> py_float w_text; h \<leftarrow> py_float h_text;
                      Some (x, y, w, h) } of
              None \<Rightarrow> Inr st
            | Some (x, y, w, h) \<Rightarrow>
                then_do (py_getitem (labels st) (selected_label st)) (\<lambda>l.
                then_do (py_setitem (labels st) (selected_label st)
                           (l\<lparr>class_id := class_combo st,
                              x_center := clamp_center x, y_center := clamp_center y,
                              width := clamp_size w, height := clamp_size h,
                              angle := float_of_int (angle_slider st)\<rparr>)) (\<lambda>ls.
                then_do (update_display (st\<lparr>labels := ls\<rparr>)) (\<lambda>st1.
                then_do (update_labels_list st1) (\<lambda>st2.
                Inr (st2\<lparr>status_bar := LabelUpdated\<rparr>))))))
      else Inr st)"

section \<open>The rotated-box tool\<close>

text \<open>\<^verbatim>\<open>math.cos\<close> and \<^verbatim>\<open>math.sin\<close> raise on an infinite argument, \<^verbatim>\<open>math.sqrt\<close> on a
  negative one.\<close>

fun math_cos :: "pyfloat \<Rightarrow> py_error + pyfloat" where
  "math_cos (Finite a) = Inr (Finite (cos a))"
| "math_cos NaN = Inr NaN"
| "math_cos _ = Inl ValueError"

fun math_sin :: "pyfloat \<Rightarrow> py_error + pyfloat" where
  "math_sin (Finite a) = Inr (Finite (sin a))"
| "math_sin NaN = Inr NaN"
| "math_sin _ = Inl ValueError"

fun math_sqrt :: "pyfloat \<Rightarrow> py_error + pyfloat" where
  "math_sqrt (Finite a) = (if a < 0 then Inl ValueError else Inr (Finite (sqrt a)))"
| "math_sqrt PInf = Inr PInf"
| "math_sqrt NaN = Inr NaN"
| "math_sqrt NInf = Inl ValueError"

definition math_radians :: "pyfloat \<Rightarrow> pyfloat" where
  "math_radians a = a * Finite (pi / 180)"

text \<open>\<^verbatim>\<open>calculate_rotated_corners\<close>; the angle is in radians.\<close>

definition calculate_rotated_corners ::
  "pyfloat \<Rightarrow> pyfloat \<Rightarrow> pyfloat \<Rightarrow> pyfloat \<Rightarrow> pyfloat \<Rightarrow> py_error + (pyfloat \<times> pyfloat) list" where
  "calculate_rotated_corners cx cy w h a =
     (let half_w = w / Finite 2; half_h = h / Finite 2;
          relative_corners = [(- half_w, - half_h), (half_w, - half_h),
                              (half_w, half_h), (- half_w, half_h)]
      in then_do (math_cos a) (\<lambda>cos_a.
         then_do (math_sin a) (\<lambda>sin_a.
         Inr (map (\<lambda>(dx, dy). (cx + (dx * cos_a - dy * sin_a), cy + (dx * sin_a + dy * cos_a)))
                relative_corners))))"

text \<open>The distance test of \<^verbatim>\<open>check_near_existing_points\<close> for one point; the pointer has
  integer coordinates there.\<close>

definition near_point :: "int \<Rightarrow> int \<Rightarrow> pyfloat \<times> pyfloat \<Rightarrow> py_error + bool" where
  "near_point px py pt =
     then_do (math_sqrt ((float_of_int px - fst pt) * (float_of_int px - fst pt)
                         + (float_of_int py - snd pt) * (float_of_int py - snd pt))) (\<lambda>distance.
     Inr (distance < Finite 10))"

fun any_near :: "int \<Rightarrow> int \<Rightarrow> (pyfloat \<times> pyfloat) list \<Rightarrow> py_error + bool" where
  "any_near px py [] = Inr False"
| "any_near px py (pt # pts) =
     then_do (near_point px py pt) (\<lambda>b. if b then Inr True else any_near px py pts)"

text \<open>\<^verbatim>\<open>check_near_existing_points\<close>: the first label with a corner or its centre within
  10 pixels of the pointer is selected, the list of labels is repainted and the tool goes to
  edit mode. \<open>i\<close> counts the labels passed.\<close>

fun check_near_from :: "int \<Rightarrow> int \<Rightarrow> label list \<Rightarrow> int \<Rightarrow> tool \<Rightarrow> py_error + tool" where
  "check_near_from px py [] i st = Inr st"
| "check_near_from px py (l # ls) i st =
     (let xc = x_center l * float_of_int (image_width st);
          yc = y_center l * float_of_int (image_height st);
          w = width l * float_of_int (image_width st);
          h = height l * float_of_int (image_height st)
      in then_do (calculate_rotated_corners xc yc w h (math_radians (angle l))) (\<lambda>corners.
         then_do (any_near px py (corners @ [(xc, yc)])) (\<lambda>b.
         if b then then_do (update_labels_list (st\<lparr>selected_label := i\<rparr>))
                     (\<lambda>st1. Inr (set_edit_mode st1))
         else check_near_from px py ls (i + 1) st)))"

definition check_near_existing_points :: "int \<Rightarrow> int \<Rightarrow> tool \<Rightarrow> py_error + tool" where
  "check_near_existing_points px py st = check_near_from px py (labels st) 0 st"

section \<open>Event dispatch\<close>

text \<open>\<^verbatim>\<open>eventFilter\<close> sends each event of the viewport to its handler (the wheel only zooms
  the view); \<open>run_events\<close> feeds a sequence of events and stops at the first exception.\<close>

datatype event =
  MouseButtonPress mouse_event | MouseMove mouse_event | MouseButtonRelease mouse_event

fun eventFilter :: "event \<Rightarrow> tool \<Rightarrow> py_error + tool" where
  "eventFilter (MouseButtonPress ev) st = handle_mouse_press ev st"
| "eventFilter (MouseMove ev) st = handle_mouse_move ev st"
| "eventFilter (MouseButtonRelease ev) st = handle_mouse_release ev st"

fun run_events :: "event list \<Rightarrow> tool \<Rightarrow> py_error + tool" where
  "run_events [] st = Inr st"
| "run_events (e # es) st = then_do (eventFilter e st) (run_events es)"

definition left_at :: "real \<Rightarrow> real \<Rightarrow> mouse_event" where
  "left_at x y = \<lparr>button = LeftButton, pos_x = x, pos_y = y\<rparr>"

section \<open>Notions used in the statements\<close>

text \<open>The labels held after a computation that may have raised.\<close>

definition labels_after :: "py_error + tool \<Rightarrow> py_error + label list" where
  "labels_after r = (case r of Inl e \<Rightarrow> Inl e | Inr st \<Rightarrow> Inr (labels st))"

text \<open>The tool as started without a configuration file, with one image of 200 by 100 pixels
  that has no label file loaded.\<close>

definition blank_200x100 :: tool where
  "blank_200x100 =
     load_image (Some (200, 100)) Missing
       ((initial_tool None)\<lparr>image_files := [''image.png''], current_index := 0\<rparr>)"

text \<open>The ranges of the specification: centre in [0,1], width and height in [0.001,1].\<close>

definition in_range :: "label \<Rightarrow> bool" where
  "in_range l =
     (Finite 0 \<le> x_center l \<and> x_center l \<le> Finite 1
      \<and> Finite 0 \<le> y_center l \<and> y_center l \<le> Finite 1
      \<and> Finite (1 / 1000) \<le> width l \<and> width l \<le> Finite 1
      \<and> Finite (1 / 1000) \<le> height l \<and> height l \<le> Finite 1)"

text \<open>A box of 80 by 40 pixels in the middle of the 200 by 100 image; the tool after that
  box has been drawn on the blank image; and the tool after the box has then been selected
  in the list and edit mode chosen.\<close>

definition middle_box :: label where
  "middle_box = \<lparr>class_id = 0, x_center = Finite (1 / 2), y_center = Finite (1 / 2),
                  width = Finite (2 / 5), height = Finite (2 / 5), angle = Finite 0\<rparr>"

definition one_box_tool :: tool where
  "one_box_tool =
     blank_200x100\<lparr>labels := [middle_box], start_point := (60, 30),
                    status_bar := AddedLabelFor ''object''\<rparr>"

definition editing_middle_box :: tool where
  "editing_middle_box = set_edit_mode (one_box_tool\<lparr>selected_label := 0\<rparr>)"

text \<open>The Euclidean test that the specification has for a handle: the distance from the
  pointer to the point is below 10 pixels.\<close>

definition euclid_near :: "real \<Rightarrow> real \<Rightarrow> pyfloat \<times> pyfloat \<Rightarrow> bool" where
  "euclid_near x y p =
     (case p of (Finite a, Finite b) \<Rightarrow> sqrt ((x - a)\<^sup>2 + (y - b)\<^sup>2) < 10 | _ \<Rightarrow> False)"

text \<open>The centre of a label in image pixels.\<close>

definition label_centre :: "tool \<Rightarrow> label \<Rightarrow> pyfloat \<times> pyfloat" where
  "label_centre st l =
     (x_center l * float_of_int (image_width st), y_center l * float_of_int (image_height st))"

text \<open>The centroid of a list of points: the mean of the first and of the second
  coordinates.\<close>

definition centroid :: "(pyfloat \<times> pyfloat) list \<Rightarrow> pyfloat \<times> pyfloat" where
  "centroid ps =
     (foldl (+) (Finite 0) (map fst ps) / float_of_int (int (length ps)),
      foldl (+) (Finite 0) (map snd ps) / float_of_int (int (length ps)))"

definition centroid_of :: "py_error + (pyfloat \<times> pyfloat) list \<Rightarrow> py_error + pyfloat \<times> pyfloat" where
  "centroid_of r = (case r of Inl e \<Rightarrow> Inl e | Inr ps \<Rightarrow> Inr (centroid ps))"

text \<open>The lines of the specification that a load passes over: fewer than five fields, or a
  field among those read (the class, the four numbers and the angle when there is one) that
  is not a number for \<^verbatim>\<open>int()\<close> or \<^verbatim>\<open>float()\<close>.\<close>

definition too_few_fields :: "string \<Rightarrow> bool" where
  "too_few_fields line = (length (py_split (py_strip line)) < 5)"

definition non_numeric_field :: "string \<Rightarrow> bool" where
  "non_numeric_field line =
     (let parts = py_split (py_strip line)
      in parts \<noteq> []
         \<and> (py_int (parts ! 0) = None
            \<or> list_ex (\<lambda>i. py_float (parts ! i) = None) [1 ..< min 6 (length parts)]))"

text \<open>A tool with the two classes \<open>car\<close> and \<open>bus\<close> and a label of each.\<close>

definition two_class_tool :: tool where
  "two_class_tool =
     (initial_tool (Some [''car'', ''bus'']))\<lparr>labels := [middle_box, middle_box\<lparr>class_id := 1\<rparr>]\<rparr>"

text \<open>Rounding to six decimal places, ties to even, and a label with its five numbers so
  rounded: what the specification expects back from a save followed by a load.\<close>

fun round_6 :: "pyfloat \<Rightarrow> pyfloat" where
  "round_6 (Finite a) = Finite (of_int (round_half_even (a * 1000000)) / 1000000)"
| "round_6 v = v"

definition round_label :: "label \<Rightarrow> label" where
  "round_label l =
     l\<lparr>x_center := round_6 (x_center l), y_center := round_6 (y_center l),
       width := round_6 (width l), height := round_6 (height l), angle := round_6 (angle l)\<rparr>"

text \<open>A save followed by a load from the file that the save left at the label path.\<close>

definition save_then_load :: "label_file \<Rightarrow> tool \<Rightarrow> py_error + tool" where
  "save_then_load f st = then_do (save_labels f st) (\<lambda>(st1, f1). load_yolo_labels f1 st1)"

text \<open>A label that the class table can name: its class id is not below minus the length of
  the table. Every non-negative class id is such.\<close>

definition nameable :: "tool \<Rightarrow> label \<Rightarrow> bool" where
  "nameable st l = (- int (length (classes st)) \<le> class_id l)"

text \<open>A tool with one label whose numbers do not all have six decimals.\<close>

definition thirds_box :: label where
  "thirds_box = \<lparr>class_id = 2, x_center = Finite (1 / 3), y_center = Finite (1 / 2),
                  width = Finite (1 / 128), height = Finite (2 / 5),
                  angle = Finite (- 123456789 / 10000000)\<rparr>"

definition thirds_tool :: tool where
  "thirds_tool = blank_200x100\<lparr>labels := [thirds_box]\<rparr>"

section \<open>Properties\<close>

lemmas float_ops = minus_pyfloat_def float_of_int_def py_truediv_def py_min_def py_max_def
  clamp_center_def clamp_size_def

lemmas draw_defs = handle_mouse_press_def handle_mouse_move_def handle_mouse_release_def
  left_at_def then_do_def QRectF_points_def QRectF_def normalized_def isValid_def new_label_def
  labels_after_def end_gesture_def

lemma then_do_Inr: "(then_do m f = Inr y) = (\<exists>x. m = Inr x \<and> f x = Inr y)"
  by (cases m) (simp_all add: then_do_def)

text \<open>The repaints raise exactly when some label cannot be named, and change nothing.\<close>

lemma class_names_nameable:
  "list_all (nameable st) ls \<Longrightarrow> \<exists>ns. class_names st ls = Inr ns"
  by (induction ls)
     (auto simp add: nameable_def label_class_name_def py_getitem_def py_position_def then_do_def)

lemma class_names_raises:
  "\<not> list_all (nameable st) ls \<Longrightarrow> class_names st ls = Inl IndexError"
  by (induction ls)
     (auto simp add: nameable_def label_class_name_def py_getitem_def py_position_def then_do_def
        split: sum.splits)

lemma update_labels_list_nameable:
  "update_labels_list st = (if list_all (nameable st) (labels st) then Inr st else Inl IndexError)"
  using class_names_nameable [of st "labels st"] class_names_raises [of st "labels st"]
  by (auto simp add: update_labels_list_def then_do_def)

lemma update_display_nameable:
  "update_display st
   = (if current_image st \<and> \<not> list_all (nameable st) (labels st) then Inl IndexError else Inr st)"
  using class_names_nameable [of st "labels st"] class_names_raises [of st "labels st"]
  by (auto simp add: update_display_def then_do_def)

lemma update_labels_list_Inr: "update_labels_list st = Inr st' \<Longrightarrow> st' = st"
  by (simp add: update_labels_list_nameable split: if_splits)

lemma update_display_Inr: "update_display st = Inr st' \<Longrightarrow> st' = st"
  by (simp add: update_display_nameable split: if_splits)

lemma nameable_updates:
  "nameable (st\<lparr>labels := ls\<rparr>) = nameable st"
  "nameable (st\<lparr>status_bar := m\<rparr>) = nameable st"
  by (simp_all add: nameable_def fun_eq_iff)

lemmas paint_simps = update_labels_list_nameable update_display_nameable
  update_display_with_temp_def nameable_def

lemma blank_200x100_eq:
  "blank_200x100 =
     (initial_tool None)\<lparr>image_files := [''image.png''], current_index := 0,
        current_image := True, image_width := 200, image_height := 100, labels := []\<rparr>"
  by (simp add: blank_200x100_def load_image_def load_yolo_labels_def then_do_def py_getitem_def
      py_position_def initial_tool_def update_class_list_def read_label_file_def
      update_labels_list_def)

lemma blank_200x100_fields:
  "drawing_mode blank_200x100" "current_image blank_200x100" "image_width blank_200x100 = 200"
  "image_height blank_200x100 = 100" "labels blank_200x100 = []" "angle_slider blank_200x100 = 0"
  "class_combo blank_200x100 = 0" "selected_label blank_200x100 = - 1"
  "\<not> drawing blank_200x100" "\<not> dragging blank_200x100" "\<not> resizing blank_200x100"
  "\<not> rotating blank_200x100" "classes blank_200x100 = [''object'']"
  by (simp_all add: blank_200x100_eq initial_tool_def update_class_list_def)

text \<open>
  C7. In draw mode on a 200 by 100 image with no labels and the angle slider at 0, a press at
  (10,10), a move to (110,60) and a release there leave exactly one label, with centre
  (0.3, 0.35), width 0.5, height 0.5 and angle 0; its class is the current index of the class
  combo box (0 when nothing is selected there).
\<close>

theorem draw_scenario_200x100:
  assumes "drawing_mode st" and "current_image st"
    and "image_width st = 200" and "image_height st = 100"
    and "labels st = []" and "angle_slider st = 0"
  shows "labels_after
           (run_events [MouseButtonPress (left_at 10 10), MouseMove (left_at 110 60),
                        MouseButtonRelease (left_at 110 60)] st)
         = Inr [\<lparr>class_id = (if class_combo st < 0 then 0 else class_combo st),
                  x_center = Finite (3 / 10), y_center = Finite (35 / 100),
                  width = Finite (1 / 2), height = Finite (1 / 2), angle = Finite 0\<rparr>]"
  using assms by (simp add: draw_defs float_ops Let_def paint_simps)

theorem draw_scenario_200x100_witness:
  "drawing_mode blank_200x100 \<and> current_image blank_200x100
   \<and> image_width blank_200x100 = 200 \<and> image_height blank_200x100 = 100
   \<and> labels blank_200x100 = [] \<and> angle_slider blank_200x100 = 0
   \<and> labels_after
        (run_events [MouseButtonPress (left_at 10 10), MouseMove (left_at 110 60),
                     MouseButtonRelease (left_at 110 60)] blank_200x100)
      = Inr [\<lparr>class_id = 0, x_center = Finite (3 / 10), y_center = Finite (35 / 100),
               width = Finite (1 / 2), height = Finite (1 / 2), angle = Finite 0\<rparr>]"
  using draw_scenario_200x100 [of blank_200x100] by (simp add: blank_200x100_fields)

text \<open>What the handlers do with a click, in every state in draw mode with an image loaded:
  the rectangle of the press has no extent, so the release takes it for no rectangle, passes
  the commit over and ends the other gestures. Nothing resets \<open>drawing\<close>.\<close>

lemma press_release_keeps_drawing:
  assumes "drawing_mode st" and "current_image st"
  shows "run_events [MouseButtonPress (left_at x y), MouseButtonRelease (left_at x y)] st
         = Inr (end_gesture (st\<lparr>drawing := True, start_point := (x, y),
                   temp_rect := Some (QRectF (Finite x) (Finite y) (Finite 0) (Finite 0))\<rparr>))"
  using assms by (simp add: draw_defs Let_def)

text \<open>
  C10 at the input where the code departs from it: the blank 200 by 100 image in draw mode,
  a press at (10,10) and at once a release at (10,10). No label of 0.001 by 0.001 is
  committed: the label sequence stays empty. The click is not simply passed over either: the
  release leaves \<open>drawing\<close> set with the start point (10,10), so a move to (110,60) and a release
  there, with no press before them, commit a box from (10,10) to (110,60).
\<close>

theorem click_commits_no_label:
  "run_events [MouseButtonPress (left_at 10 10), MouseButtonRelease (left_at 10 10)] blank_200x100
   = Inr (blank_200x100\<lparr>drawing := True, start_point := (10, 10),
            temp_rect := Some (QRectF (Finite 10) (Finite 10) (Finite 0) (Finite 0))\<rparr>)
   \<and> labels_after
       (run_events [MouseButtonPress (left_at 10 10), MouseButtonRelease (left_at 10 10)]
          blank_200x100)
     = Inr []
   \<and> labels_after
       (run_events [MouseButtonPress (left_at 10 10), MouseButtonRelease (left_at 10 10)]
          blank_200x100)
     \<noteq> Inr [\<lparr>class_id = 0, x_center = Finite (10 / 200), y_center = Finite (10 / 100),
              width = Finite (1 / 1000), height = Finite (1 / 1000), angle = Finite 0\<rparr>]
   \<and> labels_after
       (run_events [MouseButtonPress (left_at 10 10), MouseButtonRelease (left_at 10 10),
                    MouseMove (left_at 110 60), MouseButtonRelease (left_at 110 60)]
          blank_200x100)
     = Inr [\<lparr>class_id = 0, x_center = Finite (3 / 10), y_center = Finite (35 / 100),
              width = Finite (1 / 2), height = Finite (1 / 2), angle = Finite 0\<rparr>]"
  by (simp add: draw_defs float_ops Let_def paint_simps blank_200x100_eq initial_tool_def
      update_class_list_def)

lemma two_class_tool_fields:
  "classes two_class_tool = [''car'', ''bus'']"
  "labels two_class_tool = [middle_box, middle_box\<lparr>class_id := 1\<rparr>]"
  by (simp_all add: two_class_tool_def initial_tool_def update_class_list_def)

text \<open>
  C9. Removing the class at a valid row of the class table, when the question is answered
  with yes, takes that name out of the table and leaves the labels, and so their class ids,
  as they were; removing class 0 of a two-class table is the case of the witness.
\<close>

theorem remove_class_keeps_labels:
  assumes "0 \<le> row" and "row < int (length (classes st))"
  shows "labels_after (remove_class row reply st) = Inr (labels st)
       \<and> remove_class row True st
         = Inr (update_class_list
                  (st\<lparr>classes := take (nat row) (classes st) @ drop (Suc (nat row)) (classes st)\<rparr>))"
  using assms
  by (simp add: remove_class_def py_getitem_def py_position_def then_do_def labels_after_def
      update_class_list_def)

theorem remove_class_keeps_labels_witness:
  "(0 :: int) \<le> 0 \<and> 0 < int (length (classes two_class_tool))
   \<and> labels_after (remove_class 0 True two_class_tool) = Inr (labels two_class_tool)
   \<and> map class_id (labels two_class_tool) = [0, 1]
   \<and> remove_class 0 True two_class_tool
      = Inr (update_class_list (two_class_tool\<lparr>classes := [''bus'']\<rparr>))"
  using remove_class_keeps_labels [of 0 two_class_tool True]
  by (simp add: two_class_tool_fields middle_box_def labels_after_def update_class_list_def)

lemmas parse_defs = parse_line_def py_split_def py_strip_def is_space_def py_int_def py_float_def
  sign_part_def digit_part_def is_digit_def nat_of_digits_def digit_value_def decimal_literal_def
  exponent_part_def scale10_def lower_def

lemmas load_defs = load_yolo_labels_def py_getitem_def py_position_def then_do_def Let_def

lemma one_box_tool_fields:
  "image_files one_box_tool = [''image.png'']" "current_index one_box_tool = 0"
  "labels one_box_tool = [middle_box]" "image_width one_box_tool = 200"
  "image_height one_box_tool = 100" "current_image one_box_tool"
  "classes one_box_tool = [''object'']"
  by (simp_all add: one_box_tool_def blank_200x100_eq initial_tool_def update_class_list_def)

lemma blank_200x100_file:
  "image_files blank_200x100 = [''image.png'']" "current_index blank_200x100 = 0"
  by (simp_all add: blank_200x100_eq initial_tool_def update_class_list_def)

text \<open>
  C3, as the code has it. With an image current, a load from a label file that exists but
  cannot be opened raises nothing: the exception is caught and shown in the status bar, and
  the labels are empty afterwards, because the load clears them before it looks at the file.
\<close>

theorem load_unopenable_clears_labels:
  assumes "image_files st \<noteq> []" and "0 \<le> current_index st"
    and "current_index st < int (length (image_files st))"
  shows "load_yolo_labels (Unopenable e) st
         = Inr (st\<lparr>labels := [], status_bar := ErrorLoadingLabels e\<rparr>)"
  using assms by (simp add: load_defs read_label_file_def update_labels_list_def)

theorem load_unopenable_clears_labels_witness:
  "image_files one_box_tool \<noteq> [] \<and> 0 \<le> current_index one_box_tool
   \<and> current_index one_box_tool < int (length (image_files one_box_tool))
   \<and> load_yolo_labels (Unopenable ''Permission denied'') one_box_tool
      = Inr (one_box_tool\<lparr>labels := [], status_bar := ErrorLoadingLabels ''Permission denied''\<rparr>)"
  using load_unopenable_clears_labels [of one_box_tool "''Permission denied''"]
  by (simp add: one_box_tool_fields)

text \<open>The load of C3 on the tool that holds one box: no \<^verbatim>\<open>OSError\<close> comes out, and the box
  is gone.\<close>

theorem load_unopenable_counterexample:
  "load_yolo_labels (Unopenable ''Permission denied'') one_box_tool \<noteq> Inl OSError
   \<and> labels one_box_tool = [middle_box]
   \<and> labels_after (load_yolo_labels (Unopenable ''Permission denied'') one_box_tool) = Inr []
   \<and> labels_after (load_yolo_labels (Unopenable ''Permission denied'') one_box_tool)
     \<noteq> Inr (labels one_box_tool)"
  by (simp add: load_defs one_box_tool_fields labels_after_def read_label_file_def
      update_labels_list_def)

text \<open>The clamps give values in range whatever they are given, \<open>NaN\<close> and the infinities
  included, so what a release in draw mode appends, what a resize stores and what
  \<^verbatim>\<open>update_label\<close> stores is in range.\<close>

lemma clamp_center_range: "Finite 0 \<le> clamp_center v \<and> clamp_center v \<le> Finite 1"
  by (cases v) (simp_all add: clamp_center_def py_min_def py_max_def)

lemma clamp_size_range: "Finite (1 / 1000) \<le> clamp_size v \<and> clamp_size v \<le> Finite 1"
  by (cases v) (simp_all add: clamp_size_def py_min_def py_max_def)

lemma keep_within_bounds_in_range: "in_range (keep_within_bounds l)"
  by (simp add: in_range_def keep_within_bounds_def clamp_center_range clamp_size_range)

lemma new_label_in_range: "new_label st rect = Inr l \<Longrightarrow> in_range l"
  by (auto simp add: new_label_def then_do_def in_range_def clamp_center_range clamp_size_range
      split: sum.splits)

lemma update_label_in_range:
  assumes "update_label xt yt wt ht st = Inr st'" and "py_float xt \<noteq> None"
    and "py_float yt \<noteq> None" and "py_float wt \<noteq> None" and "py_float ht \<noteq> None"
    and "0 \<le> selected_label st"
  shows "in_range (labels st' ! nat (selected_label st))"
  using assms
  by (auto simp add: update_label_def then_do_Inr py_getitem_def py_setitem_def py_position_def
      in_range_def clamp_center_range clamp_size_range
      dest!: update_display_Inr update_labels_list_Inr split: option.splits if_splits)

text \<open>
  C1 at the input where the code departs from it: a label file with the line
  \<^verbatim>\<open>0 1.5 0.5 0.2 0.2\<close>. The load stores the centre 1.5 as read, out of the range [0,1].
\<close>

theorem load_keeps_out_of_range:
  "labels_after (load_yolo_labels (Opened [''0 1.5 0.5 0.2 0.2'' @ [CHR 0x0A]]) blank_200x100)
   = Inr [\<lparr>class_id = 0, x_center = Finite (3 / 2), y_center = Finite (1 / 2),
            width = Finite (1 / 5), height = Finite (1 / 5), angle = Finite 0\<rparr>]
   \<and> \<not> in_range \<lparr>class_id = 0, x_center = Finite (3 / 2), y_center = Finite (1 / 2),
                   width = Finite (1 / 5), height = Finite (1 / 5), angle = Finite 0\<rparr>"
  by (simp add: load_defs blank_200x100_file labels_after_def parse_defs in_range_def
      read_label_file_def paint_simps)

lemma read_labels_append: "read_labels acc lines = acc @ List.map_filter parse_line lines"
  by (induction lines arbitrary: acc) (auto simp: List.map_filter_simps split: option.splits)

lemma bind_eq_None: "(Option.bind m f = None) = (m = None \<or> (\<exists>v. m = Some v \<and> f v = None))"
  by (cases m) auto

lemma upt_fields: "[Suc 0..<5] = [1, 2, 3, 4]" "[Suc 0..<6] = [1, 2, 3, 4, 5]"
  by (simp_all add: upt_rec)

lemma parse_line_None: "(parse_line line = None) = (too_few_fields line \<or> non_numeric_field line)"
proof (cases "length (py_split (py_strip line)) < 5")
  case True
  then show ?thesis by (simp add: parse_line_def too_few_fields_def)
next
  case False
  then consider "length (py_split (py_strip line)) = 5" | "5 < length (py_split (py_strip line))"
    by linarith
  then show ?thesis
  proof cases
    case 1
    then show ?thesis
      by (auto simp add: parse_line_def too_few_fields_def non_numeric_field_def Let_def
          bind_eq_None upt_fields)
  next
    case 2
    then have m: "min 6 (length (py_split (py_strip line))) = 6" by simp
    from 2 show ?thesis
      by (auto simp add: parse_line_def too_few_fields_def non_numeric_field_def Let_def
          bind_eq_None m upt_fields)
  qed
qed

text \<open>With an image current, a load from a file that can be read gives the labels of the
  lines that parse, in their order, whatever lines stand between them; it raises exactly when
  one of these labels cannot be named.\<close>

lemma load_readable:
  assumes "image_files st \<noteq> []" and "0 \<le> current_index st"
    and "current_index st < int (length (image_files st))"
  shows "read_labels [] lines = List.map_filter parse_line lines"
    and "load_yolo_labels (Opened lines) st
         = (if list_all (nameable st) (List.map_filter parse_line lines)
            then Inr (st\<lparr>labels := List.map_filter parse_line lines\<rparr>) else Inl IndexError)"
  using assms
  by (simp_all add: read_labels_append load_defs read_label_file_def update_labels_list_nameable
      nameable_updates)

text \<open>
  C6 at the input where the code departs from it: the tool with the one class \<open>object\<close> and a
  label file with the line \<^verbatim>\<open>0 abc 0.5 0.2 0.2\<close>, which has a field that is no number, and
  the line \<^verbatim>\<open>-5 0.5 0.5 0.2 0.2\<close>, which has five fields that are all numbers. The first
  line is passed over and the second gives a label, but the load raises \<^verbatim>\<open>IndexError\<close>: the
  repaint of the list of labels that ends it, outside the \<^verbatim>\<open>try\<close>, asks the class table
  for the name at index -5. With the second line \<^verbatim>\<open>1 0.5 0.5 0.2 0.2 30\<close> instead, the load
  raises nothing and leaves the one label.
\<close>

theorem load_negative_class_raises:
  "non_numeric_field (''0 abc 0.5 0.2 0.2'' @ [CHR 0x0A])
   \<and> parse_line (''0 abc 0.5 0.2 0.2'' @ [CHR 0x0A]) = None
   \<and> parse_line (''-5 0.5 0.5 0.2 0.2'' @ [CHR 0x0A])
     = Some \<lparr>class_id = - 5, x_center = Finite (1 / 2), y_center = Finite (1 / 2),
              width = Finite (1 / 5), height = Finite (1 / 5), angle = Finite 0\<rparr>
   \<and> classes blank_200x100 = [''object'']
   \<and> load_yolo_labels
       (Opened [''0 abc 0.5 0.2 0.2'' @ [CHR 0x0A], ''-5 0.5 0.5 0.2 0.2'' @ [CHR 0x0A]])
       blank_200x100
     = Inl IndexError
   \<and> load_yolo_labels
       (Opened [''0 abc 0.5 0.2 0.2'' @ [CHR 0x0A], ''1 0.5 0.5 0.2 0.2 30'' @ [CHR 0x0A]])
       blank_200x100
     = Inr (blank_200x100
              \<lparr>labels := [\<lparr>class_id = 1, x_center = Finite (1 / 2), y_center = Finite (1 / 2),
                            width = Finite (1 / 5), height = Finite (1 / 5),
                            angle = Finite 30\<rparr>]\<rparr>)"
  by (simp add: load_defs blank_200x100_file blank_200x100_fields parse_defs
      non_numeric_field_def read_label_file_def paint_simps)

lemma middle_box_fields:
  "class_id middle_box = 0" "x_center middle_box = Finite (1 / 2)"
  "y_center middle_box = Finite (1 / 2)" "width middle_box = Finite (2 / 5)"
  "height middle_box = Finite (2 / 5)" "angle middle_box = Finite 0"
  by (simp_all add: middle_box_def)

lemma editing_middle_box_fields:
  "labels editing_middle_box = [middle_box]" "selected_label editing_middle_box = 0"
  "image_width editing_middle_box = 200" "image_height editing_middle_box = 100"
  "current_image editing_middle_box" "edit_mode editing_middle_box"
  "\<not> drawing_mode editing_middle_box" "\<not> drawing editing_middle_box"
  "\<not> dragging editing_middle_box" "\<not> resizing editing_middle_box"
  by (simp_all add: editing_middle_box_def set_edit_mode_def one_box_tool_def
      blank_200x100_fields)

text \<open>The two example tools are states the handlers reach: drawing the box on the blank
  image gives \<open>one_box_tool\<close>, selecting the box and choosing edit mode gives
  \<open>editing_middle_box\<close>.\<close>

lemma one_box_tool_reached:
  "run_events [MouseButtonPress (left_at 60 30), MouseMove (left_at 140 70),
               MouseButtonRelease (left_at 140 70)] blank_200x100
   = Inr one_box_tool"
  by (simp add: draw_defs float_ops Let_def blank_200x100_fields one_box_tool_def middle_box_def
      class_name_def blank_200x100_eq initial_tool_def update_class_list_def paint_simps)

lemma editing_middle_box_reached:
  "then_do (select_label 0 one_box_tool) (\<lambda>st. Inr (set_edit_mode st)) = Inr editing_middle_box"
  by (simp add: select_label_def update_label_info_def one_box_tool_def blank_200x100_eq
      initial_tool_def update_class_list_def middle_box_def then_do_def angle_slider_setValue_def
      class_combo_setCurrentIndex_def editing_middle_box_def Let_def c_int_def paint_simps)

lemma handles_middle_box:
  "image_width st = 200 \<Longrightarrow> image_height st = 100 \<Longrightarrow>
   calculate_handles st middle_box =
     [(Finite 60, Finite 30), (Finite 140, Finite 30), (Finite 140, Finite 70),
      (Finite 60, Finite 70), (Finite 100, Finite 30), (Finite 140, Finite 50),
      (Finite 100, Finite 70), (Finite 60, Finite 50)]"
  by (simp add: calculate_handles_def middle_box_def float_ops np_radians_def Let_def)

lemma press_top_edge:
  "handle_mouse_press (left_at 100 30) editing_middle_box
   = Inr (editing_middle_box\<lparr>resizing := True, resize_handle := 4,
            drag_start := Some (100, 30), original_label := Some middle_box\<rparr>)"
  by (simp add: handle_mouse_press_def left_at_def editing_middle_box_fields handles_middle_box
      then_do_def py_getitem_def py_position_def near_handle_def float_ops)

text \<open>
  C2 at the input where the code departs from it: the box in the middle of the 200 by 100
  image is selected in edit mode, the press at (100,30) takes the handle of the top edge
  (index 4), and the pointer moves up to (100,20), outward of that edge. The move raises
  \<^verbatim>\<open>IndexError\<close>: it stores the pointer at index 4 of the list of the four corners before
  it looks at the kind of handle. The height does not grow; and the formula of the edge branch,
  which is never reached, gives a negative height here, which the clamp turns into 0.001.
\<close>

theorem top_edge_resize_raises:
  "handle_mouse_press (left_at 100 30) editing_middle_box
   = Inr (editing_middle_box\<lparr>resizing := True, resize_handle := 4,
            drag_start := Some (100, 30), original_label := Some middle_box\<rparr>)
   \<and> run_events [MouseButtonPress (left_at 100 30), MouseMove (left_at 100 20)] editing_middle_box
     = Inl IndexError
   \<and> resize_edge
       (editing_middle_box\<lparr>resizing := True, resize_handle := 4,
          drag_start := Some (100, 30), original_label := Some middle_box\<rparr>)
       100 20 middle_box middle_box
     = Inr (middle_box\<lparr>height := Finite (- (1 / 5))\<rparr>)
   \<and> height (keep_within_bounds (middle_box\<lparr>height := Finite (- (1 / 5))\<rparr>)) = Finite (1 / 1000)"
proof -
  have "run_events [MouseButtonPress (left_at 100 30), MouseMove (left_at 100 20)]
          editing_middle_box = Inl IndexError"
    apply (simp only: run_events.simps eventFilter.simps press_top_edge then_do_def sum.case)
    apply (simp add: handle_mouse_move_def left_at_def editing_middle_box_fields
        handles_middle_box py_getitem_def py_setitem_def py_position_def
        get_original_label_def then_do_def)
    done
  moreover have "resize_edge
       (editing_middle_box\<lparr>resizing := True, resize_handle := 4,
          drag_start := Some (100, 30), original_label := Some middle_box\<rparr>)
       100 20 middle_box middle_box
     = Inr (middle_box\<lparr>height := Finite (- (1 / 5))\<rparr>)"
    by (simp add: resize_edge_def editing_middle_box_fields then_do_def float_ops middle_box_def)
  moreover have "height (keep_within_bounds (middle_box\<lparr>height := Finite (- (1 / 5))\<rparr>))
     = Finite (1 / 1000)"
    by (simp add: keep_within_bounds_def float_ops)
  ultimately show ?thesis using press_top_edge by simp
qed

lemma find_handle_None:
  "(find_handle x y hs k = None) = (\<forall>j < length hs. \<not> near_handle x y (hs ! j))"
  by (induction hs arbitrary: k) (auto simp: nth_Cons less_Suc_eq_0_disj split: nat.splits)

lemma find_handle_from:
  "(find_handle x y hs k = Some i) =
     (\<exists>m. i = k + m \<and> m < length hs \<and> near_handle x y (hs ! m)
          \<and> (\<forall>j < m. \<not> near_handle x y (hs ! j)))"
proof (induction hs arbitrary: k)
  case Nil
  then show ?case by simp
next
  case (Cons hp hs)
  show ?case
  proof (cases "near_handle x y hp")
    case True
    have "(\<exists>m. i = k + m \<and> m < length (hp # hs) \<and> near_handle x y ((hp # hs) ! m)
          \<and> (\<forall>j < m. \<not> near_handle x y ((hp # hs) ! j))) = (i = k)"
    proof
      assume "\<exists>m. i = k + m \<and> m < length (hp # hs) \<and> near_handle x y ((hp # hs) ! m)
          \<and> (\<forall>j < m. \<not> near_handle x y ((hp # hs) ! j))"
      then obtain m where m: "i = k + m" "\<forall>j < m. \<not> near_handle x y ((hp # hs) ! j)" by blast
      have "m = 0"
      proof (rule ccontr)
        assume "m \<noteq> 0"
        then have "0 < m" by simp
        with m(2) have "\<not> near_handle x y ((hp # hs) ! 0)" by blast
        with True show False by simp
      qed
      with m show "i = k" by simp
    next
      assume "i = k"
      with True show "\<exists>m. i = k + m \<and> m < length (hp # hs) \<and> near_handle x y ((hp # hs) ! m)
          \<and> (\<forall>j < m. \<not> near_handle x y ((hp # hs) ! j))"
        by (intro exI [of _ 0]) simp
    qed
    with True show ?thesis by auto
  next
    case False
    have "(\<exists>m. i = k + m \<and> m < length (hp # hs) \<and> near_handle x y ((hp # hs) ! m)
          \<and> (\<forall>j < m. \<not> near_handle x y ((hp # hs) ! j)))
        = (\<exists>n. i = Suc k + n \<and> n < length hs \<and> near_handle x y (hs ! n)
          \<and> (\<forall>j < n. \<not> near_handle x y (hs ! j)))" (is "?L = ?R")
    proof
      assume ?L
      then obtain m where m: "i = k + m" "m < length (hp # hs)" "near_handle x y ((hp # hs) ! m)"
         "\<forall>j < m. \<not> near_handle x y ((hp # hs) ! j)" by blast
      from m(3) False obtain n where n: "m = Suc n" by (cases m) auto
      have "\<forall>j < n. \<not> near_handle x y (hs ! j)"
      proof (intro allI impI)
        fix j assume "j < n"
        then have "Suc j < m" using n by simp
        with m(4) have "\<not> near_handle x y ((hp # hs) ! Suc j)" by blast
        then show "\<not> near_handle x y (hs ! j)" by simp
      qed
      with m n show ?R by (intro exI [of _ n]) simp
    next
      assume ?R
      then obtain n where n: "i = Suc k + n" "n < length hs" "near_handle x y (hs ! n)"
         "\<forall>j < n. \<not> near_handle x y (hs ! j)" by blast
      have "\<forall>j < Suc n. \<not> near_handle x y ((hp # hs) ! j)"
      proof (intro allI impI)
        fix j assume j: "j < Suc n"
        show "\<not> near_handle x y ((hp # hs) ! j)"
        proof (cases j)
          case 0
          with False show ?thesis by simp
        next
          case (Suc j')
          with j n(4) show ?thesis by simp
        qed
      qed
      with n show ?L by (intro exI [of _ "Suc n"]) simp
    qed
    with False Cons.IH [of "Suc k"] show ?thesis by simp
  qed
qed

lemma find_handle_Some:
  "(find_handle x y hs 0 = Some i) =
     (i < length hs \<and> near_handle x y (hs ! i) \<and> (\<forall>j < i. \<not> near_handle x y (hs ! j)))"
  by (auto simp add: find_handle_from)


lemma length_calculate_handles: "length (calculate_handles st l) = 8"
  by (simp add: calculate_handles_def Let_def)

lemma near_handle_Finite:
  "near_handle x y (Finite a, Finite b) = (\<bar>x - a\<bar> < 10 \<and> \<bar>y - b\<bar> < 10)"
  by (simp add: near_handle_def minus_pyfloat_def)

lemma sqrt_less_10: "(sqrt a < 10) = (a < 100)"
  using real_sqrt_less_iff [of a 100] by simp

lemma square_less_100: "(u :: real)\<^sup>2 + v\<^sup>2 < 100 \<Longrightarrow> \<bar>u\<bar> < 10"
proof -
  assume d: "u\<^sup>2 + v\<^sup>2 < 100"
  have "0 \<le> v\<^sup>2" by simp
  with d have "u\<^sup>2 < 100" by linarith
  then have "\<bar>u\<bar>\<^sup>2 < 10\<^sup>2" by simp
  then show "\<bar>u\<bar> < 10" by (rule power2_less_imp_less) simp
qed

lemma euclid_near_imp_near_handle: "euclid_near x y p \<Longrightarrow> near_handle x y p"
proof -
  assume e: "euclid_near x y p"
  then obtain a b where p: "p = (Finite a, Finite b)"
    by (cases p; cases "fst p"; cases "snd p") (auto simp: euclid_near_def)
  from e p have d: "(x - a)\<^sup>2 + (y - b)\<^sup>2 < 100"
    by (simp add: euclid_near_def sqrt_less_10)
  then have d': "(y - b)\<^sup>2 + (x - a)\<^sup>2 < 100" by simp
  from square_less_100 [OF d] square_less_100 [OF d'] p show ?thesis
    by (simp add: near_handle_Finite)
qed

lemma press_hits_handle:
  assumes "current_image st" and "\<not> drawing_mode st" and "edit_mode st"
    and "0 \<le> selected_label st" and "selected_label st < int (length (labels st))"
    and "l = labels st ! nat (selected_label st)"
    and "find_handle x y (calculate_handles st l) 0 = Some i"
  shows "handle_mouse_press (left_at x y) st
         = Inr (st\<lparr>resizing := True, resize_handle := int i,
                  drag_start := Some (x, y), original_label := Some l\<rparr>)"
  using assms
  by (simp add: handle_mouse_press_def left_at_def then_do_def py_getitem_def py_position_def)

text \<open>The widgets that a selection refreshes leave the resize alone.\<close>

lemma update_angle_from_slider_keeps:
  "update_angle_from_slider st = Inr st' \<Longrightarrow>
   resizing st' = resizing st \<and> resize_handle st' = resize_handle st"
  by (auto simp add: update_angle_from_slider_def then_do_Inr
      dest!: update_display_Inr update_labels_list_Inr split: if_splits)

lemma angle_slider_setValue_keeps:
  "angle_slider_setValue v st = Inr st' \<Longrightarrow>
   resizing st' = resizing st \<and> resize_handle st' = resize_handle st"
  by (auto simp add: angle_slider_setValue_def then_do_Inr c_int_def Let_def
      dest!: update_angle_from_slider_keeps split: if_splits)

lemma update_label_info_keeps:
  "update_label_info st = Inr st' \<Longrightarrow>
   resizing st' = resizing st \<and> resize_handle st' = resize_handle st"
  by (auto simp add: update_label_info_def then_do_Inr c_int_def Let_def
      class_combo_setCurrentIndex_def
      dest!: angle_slider_setValue_keeps split: if_splits)

lemma press_misses_handles:
  assumes "current_image st" and "\<not> drawing_mode st" and "edit_mode st"
    and "0 \<le> selected_label st" and "selected_label st < int (length (labels st))"
    and "l = labels st ! nat (selected_label st)"
    and "find_handle x y (calculate_handles st l) 0 = None"
    and "handle_mouse_press (left_at x y) st = Inr st'"
  shows "resizing st' = resizing st \<and> resize_handle st' = resize_handle st"
  using assms
  by (auto simp add: handle_mouse_press_def left_at_def then_do_Inr py_getitem_def
      py_position_def Let_def
      dest!: update_display_Inr update_labels_list_Inr update_label_info_keeps
      split: if_splits option.splits)

text \<open>
  C4, as the code has it. In edit mode with a label selected, the press tests the eight
  handles of that label (four corners, then four edge midpoints; the centre is not among
  them) in their order, each with the test that the pointer is less than 10 pixels away on
  the x axis and on the y axis. The press starts a resize exactly when some handle passes,
  and the handle it stores is the first that passes. A handle less than 10 pixels away in
  Euclidean distance passes the test; the converse fails in the corners of the square.
\<close>

theorem handle_hit_test:
  assumes "current_image st" and "\<not> drawing_mode st" and "edit_mode st"
    and "0 \<le> selected_label st" and "selected_label st < int (length (labels st))"
    and "l = labels st ! nat (selected_label st)" and "hs = calculate_handles st l"
  shows "length hs = 8
       \<and> (find_handle x y hs 0 = Some i)
         = (i < 8 \<and> near_handle x y (hs ! i) \<and> (\<forall>j < i. \<not> near_handle x y (hs ! j)))
       \<and> (find_handle x y hs 0 = None) = (\<forall>j < 8. \<not> near_handle x y (hs ! j))
       \<and> (find_handle x y hs 0 = Some i \<longrightarrow>
            handle_mouse_press (left_at x y) st
            = Inr (st\<lparr>resizing := True, resize_handle := int i,
                     drag_start := Some (x, y), original_label := Some l\<rparr>))
       \<and> (find_handle x y hs 0 = None \<and> handle_mouse_press (left_at x y) st = Inr st' \<longrightarrow>
            resizing st' = resizing st \<and> resize_handle st' = resize_handle st)
       \<and> near_handle x y (Finite a, Finite b) = (\<bar>x - a\<bar> < 10 \<and> \<bar>y - b\<bar> < 10)
       \<and> (euclid_near x y (hs ! k) \<longrightarrow> near_handle x y (hs ! k))"
proof -
  have len: "length hs = 8" using assms(7) by (simp add: length_calculate_handles)
  have some: "(find_handle x y hs 0 = Some i)
         = (i < 8 \<and> near_handle x y (hs ! i) \<and> (\<forall>j < i. \<not> near_handle x y (hs ! j)))"
    using find_handle_Some [of x y hs i] len by simp
  have none: "(find_handle x y hs 0 = None) = (\<forall>j < 8. \<not> near_handle x y (hs ! j))"
    using find_handle_None [of x y hs 0] len by simp
  have hit: "find_handle x y hs 0 = Some i \<longrightarrow>
            handle_mouse_press (left_at x y) st
            = Inr (st\<lparr>resizing := True, resize_handle := int i,
                     drag_start := Some (x, y), original_label := Some l\<rparr>)"
    using press_hits_handle [OF assms(1-6)] assms(7) by simp
  have miss: "find_handle x y hs 0 = None \<and> handle_mouse_press (left_at x y) st = Inr st' \<longrightarrow>
            resizing st' = resizing st \<and> resize_handle st' = resize_handle st"
    using press_misses_handles [OF assms(1-6)] assms(7) by blast
  have ball: "euclid_near x y (hs ! k) \<longrightarrow> near_handle x y (hs ! k)"
    using euclid_near_imp_near_handle by blast
  from len some none hit miss ball near_handle_Finite [of x y a b] show ?thesis
    by blast
qed

theorem handle_hit_test_witness:
  "current_image editing_middle_box \<and> \<not> drawing_mode editing_middle_box
   \<and> edit_mode editing_middle_box \<and> 0 \<le> selected_label editing_middle_box
   \<and> selected_label editing_middle_box < int (length (labels editing_middle_box))
   \<and> middle_box = labels editing_middle_box ! nat (selected_label editing_middle_box)
   \<and> euclid_near 63 34 (calculate_handles editing_middle_box middle_box ! 0)
   \<and> find_handle 63 34 (calculate_handles editing_middle_box middle_box) 0 = Some 0
   \<and> handle_mouse_press (left_at 63 34) editing_middle_box
     = Inr (editing_middle_box\<lparr>resizing := True, resize_handle := 0,
              drag_start := Some (63, 34), original_label := Some middle_box\<rparr>)"
  using handle_hit_test
    [of editing_middle_box middle_box "calculate_handles editing_middle_box middle_box"
        63 34 0 editing_middle_box 60 30 0]
  by (simp add: editing_middle_box_fields handles_middle_box near_handle_Finite euclid_near_def
      sqrt_less_10)

text \<open>The press of C4 at (69,39) on the selected box in the middle: the corner at (60,30) is
  taken as handle 0, though neither a handle nor the centre is less than 10 pixels away in
  Euclidean distance.\<close>

theorem handle_hit_test_counterexample:
  "handle_mouse_press (left_at 69 39) editing_middle_box
   = Inr (editing_middle_box\<lparr>resizing := True, resize_handle := 0,
            drag_start := Some (69, 39), original_label := Some middle_box\<rparr>)
   \<and> find_handle 69 39 (calculate_handles editing_middle_box middle_box) 0 = Some 0
   \<and> \<not> list_ex (euclid_near 69 39)
         (calculate_handles editing_middle_box middle_box
          @ [label_centre editing_middle_box middle_box])"
  by (simp add: handle_mouse_press_def left_at_def editing_middle_box_fields handles_middle_box
      then_do_def py_getitem_def py_position_def near_handle_def float_ops euclid_near_def
      sqrt_less_10 label_centre_def middle_box_fields)

text \<open>The Euclidean test is the one of \<^verbatim>\<open>check_near_existing_points\<close>, which looks at
  the corners and the centre of every label and selects a label: at (63,34) it selects the
  box and goes to edit mode, at (69,39) it does nothing.\<close>

lemma check_near_existing_points_middle_box:
  "check_near_existing_points 63 34 one_box_tool
   = Inr (set_edit_mode (one_box_tool\<lparr>selected_label := 0\<rparr>))"
  "check_near_existing_points 69 39 one_box_tool = Inr one_box_tool"
  by (simp_all add: check_near_existing_points_def one_box_tool_fields middle_box_fields
      calculate_rotated_corners_def math_radians_def near_point_def then_do_def float_ops
      Let_def sqrt_less_10 paint_simps)

text \<open>
  C8. For every centre, width, height and angle (finite numbers), the four points of
  \<^verbatim>\<open>calculate_rotated_corners\<close> have the centre as their centroid; so have the four corners
  that \<^verbatim>\<open>calculate_handles\<close> gives for a label, whose angle is in degrees. Arithmetic is
  exact in the model, so the equality is exact.
\<close>

theorem rotated_corners_centroid:
  "centroid_of
     (calculate_rotated_corners (Finite cx) (Finite cy) (Finite w) (Finite h) (Finite a))
   = Inr (Finite cx, Finite cy)
   \<and> centroid_of
       (calculate_rotated_corners (Finite cx) (Finite cy) (Finite w) (Finite h)
          (math_radians (Finite d)))
     = Inr (Finite cx, Finite cy)
   \<and> centroid (take 4 (calculate_handles st
                 \<lparr>class_id = c, x_center = Finite x, y_center = Finite y,
                   width = Finite w, height = Finite h, angle = Finite d\<rparr>))
     = (Finite (x * real_of_int (image_width st)), Finite (y * real_of_int (image_height st)))"
  by (simp add: centroid_of_def calculate_rotated_corners_def then_do_def centroid_def float_ops
      calculate_handles_def np_radians_def math_radians_def Let_def algebra_simps)

text \<open>Writing numbers and reading them back.\<close>

lemma lt10_cases: "n < 10 \<Longrightarrow> n \<in> {0, 1, 2, 3, 4, 5, 6, 7, 8, 9 :: nat}"
  by auto

lemma digit_char_digit: "n < 10 \<Longrightarrow> is_digit (digit_char n)"
  by (drule lt10_cases) (auto simp add: is_digit_def digit_char_def)

lemma digit_value_digit_char: "n < 10 \<Longrightarrow> digit_value (digit_char n) = n"
  by (drule lt10_cases) (auto simp add: digit_value_def digit_char_def)

lemma is_digit_cases: "is_digit c \<Longrightarrow> c \<in> set ''0123456789''"
  by (simp add: is_digit_def)

lemma digit_not_special:
  assumes "is_digit c"
  shows "\<not> is_space c" "c \<noteq> CHR ''-''" "c \<noteq> CHR ''+''" "c \<noteq> CHR ''_''" "c \<noteq> CHR ''.''"
    "c \<noteq> CHR ''i''" "c \<noteq> CHR ''n''"
  using assms by (auto simp add: is_digit_def is_space_def)

lemma lower_digit: "is_digit c \<Longrightarrow> lower c = c"
  apply (simp add: is_digit_def)
  apply (elim disjE)
  apply (simp_all add: lower_def)
  done

lemma str_nat_digits: "list_all is_digit (str_nat n)"
proof (induction n rule: str_nat.induct)
  case (1 n)
  show ?case
  proof (cases "n < 10")
    case True
    then show ?thesis by (simp add: str_nat.simps [of n] digit_char_digit)
  next
    case False
    with 1 show ?thesis by (simp add: str_nat.simps [of n] digit_char_digit)
  qed
qed

lemma str_nat_not_Nil: "str_nat n \<noteq> []"
  by (simp add: str_nat.simps [of n])

lemma nat_of_digits_snoc: "nat_of_digits (ds @ [c]) = 10 * nat_of_digits ds + digit_value c"
  by (simp add: nat_of_digits_def)

lemma nat_of_digits_str_nat: "nat_of_digits (str_nat n) = n"
proof (induction n rule: str_nat.induct)
  case (1 n)
  show ?case
  proof (cases "n < 10")
    case True
    then show ?thesis
      by (simp add: str_nat.simps [of n] nat_of_digits_def digit_value_digit_char)
  next
    case False
    with 1 have "nat_of_digits (str_nat (n div 10)) = n div 10" by simp
    with False show ?thesis
      by (simp add: str_nat.simps [of n] nat_of_digits_snoc digit_value_digit_char)
  qed
qed

lemma pad6_digits: "list_all is_digit (pad6 m)"
  by (simp add: pad6_def digit_char_digit)

lemma length_pad6: "length (pad6 m) = 6"
  by (simp add: pad6_def)

lemma nat_of_digits_pad6: "m < 1000000 \<Longrightarrow> nat_of_digits (pad6 m) = m"
proof -
  assume m: "m < 1000000"
  have e: "nat_of_digits (pad6 m) =
      100000 * (m div 100000 mod 10) + (10000 * (m div 10000 mod 10) + (1000 * (m div 1000 mod 10)
      + (100 * (m div 100 mod 10) + (10 * (m div 10 mod 10) + m mod 10))))"
    by (simp add: pad6_def nat_of_digits_def digit_value_digit_char)
  have 1: "m mod 100 = 10 * (m div 10 mod 10) + m mod 10"
    using mod_mult2_eq [of m 10 10] by simp
  have 2: "m mod 1000 = 100 * (m div 100 mod 10) + m mod 100"
    using mod_mult2_eq [of m 100 10] by simp
  have 3: "m mod 10000 = 1000 * (m div 1000 mod 10) + m mod 1000"
    using mod_mult2_eq [of m 1000 10] by simp
  have 4: "m mod 100000 = 10000 * (m div 10000 mod 10) + m mod 10000"
    using mod_mult2_eq [of m 10000 10] by simp
  have 5: "m mod 1000000 = 100000 * (m div 100000 mod 10) + m mod 100000"
    using mod_mult2_eq [of m 100000 10] by simp
  from m have "m mod 1000000 = m" by simp
  with e 1 2 3 4 5 show ?thesis by linarith
qed

lemma digit_run_no_digit:
  "r = [] \<or> (\<not> is_digit (hd r) \<and> hd r \<noteq> CHR ''_'') \<Longrightarrow> digit_run r = ([], r)"
  by (cases r rule: digit_run.cases) auto

lemma digit_run_digits:
  assumes "list_all is_digit ds" and "r = [] \<or> (\<not> is_digit (hd r) \<and> hd r \<noteq> CHR ''_'')"
  shows "digit_run (ds @ r) = (ds, r)"
  using assms
proof (induction ds)
  case Nil
  then show ?case by (simp add: digit_run_no_digit)
next
  case (Cons c ds)
  then have ih: "digit_run (ds @ r) = (ds, r)" and c: "is_digit c" by simp_all
  show ?case
  proof (cases "ds @ r")
    case Nil
    with c show ?thesis by simp
  next
    case (Cons d cs)
    with ih c show ?thesis by simp
  qed
qed

lemma digit_part_digits:
  assumes "ds \<noteq> []" and "list_all is_digit ds"
    and "r = [] \<or> (\<not> is_digit (hd r) \<and> hd r \<noteq> CHR ''_'')"
  shows "digit_part (ds @ r) = (ds, r)"
proof -
  from assms(1) obtain c cs where ds: "ds = c # cs" by (cases ds) auto
  with assms(2) have c: "is_digit c" and cs: "list_all is_digit cs" by simp_all
  from digit_run_digits [OF cs assms(3)] c ds show ?thesis
    by (simp add: digit_part_def)
qed

lemma split_from_token:
  "list_all (\<lambda>c. \<not> is_space c) t \<Longrightarrow> split_from tok (t @ rest) = split_from (tok @ t) rest"
  by (induction t arbitrary: tok) simp_all

lemma split_from_spaces:
  "list_all is_space ws \<Longrightarrow> split_from tok ws = (if tok = [] then [] else [tok])"
  by (induction ws arbitrary: tok) simp_all

lemma split_from_trailing:
  "list_all is_space ws \<Longrightarrow> split_from tok (s @ ws) = split_from tok s"
proof (induction s arbitrary: tok)
  case Nil
  then show ?case by (simp add: split_from_spaces)
next
  case (Cons c s)
  then show ?case by simp
qed

lemma split_from_leading: "split_from [] (dropWhile is_space s) = split_from [] s"
  by (induction s) simp_all

lemma py_split_strip: "py_split (py_strip s) = py_split s"
proof -
  let ?t = "dropWhile is_space s"
  have "rev (dropWhile is_space (rev ?t)) @ rev (takeWhile is_space (rev ?t)) = ?t"
    by (metis rev_append rev_rev_ident takeWhile_dropWhile_id)
  moreover have "list_all is_space (rev (takeWhile is_space (rev ?t)))"
    by (simp add: list_all_iff) (metis set_takeWhileD)
  ultimately have "split_from [] (rev (dropWhile is_space (rev ?t))) = split_from [] ?t"
    by (metis split_from_trailing)
  then show ?thesis by (simp add: py_split_def py_strip_def split_from_leading)
qed

lemma py_strip_token:
  assumes "list_all (\<lambda>c. \<not> is_space c) t"
  shows "py_strip t = t"
proof -
  have d: "\<And>u. list_all (\<lambda>c. \<not> is_space c) u \<Longrightarrow> dropWhile is_space u = u"
    by (case_tac u) simp_all
  from assms have "list_all (\<lambda>c. \<not> is_space c) (rev t)" by (simp add: list_all_iff)
  with d [OF assms] d [of "rev t"] show ?thesis by (simp add: py_strip_def)
qed

text \<open>Six tokens joined by single spaces, with a newline at the end.\<close>

lemma split_six:
  assumes "\<forall>t \<in> set [t1, t2, t3, t4, t5, t6]. t \<noteq> [] \<and> list_all (\<lambda>c. \<not> is_space c) t"
  shows "py_split (t1 @ '' '' @ t2 @ '' '' @ t3 @ '' '' @ t4 @ '' '' @ t5 @ '' '' @ t6 @ [CHR 0x0A])
         = [t1, t2, t3, t4, t5, t6]"
  using assms by (simp add: py_split_def split_from_token is_space_def)

lemma round_half_even_nonneg: "0 \<le> x \<Longrightarrow> 0 \<le> round_half_even x"
proof -
  assume "0 \<le> x"
  then have "0 \<le> \<lfloor>x\<rfloor>" by simp
  then show ?thesis by (simp add: round_half_even_def)
qed

lemma round_half_even_close: "\<bar>of_int (round_half_even x) - x\<bar> \<le> 1 / 2"
proof -
  have "of_int \<lfloor>x\<rfloor> \<le> x" and "x < of_int \<lfloor>x\<rfloor> + 1" by linarith+
  then show ?thesis by (auto simp add: round_half_even_def)
qed

lemma round_half_even_minus: "round_half_even (- x) = - round_half_even x"
proof (cases "x = of_int \<lfloor>x\<rfloor>")
  case True
  then have "\<lfloor>- x\<rfloor> = - \<lfloor>x\<rfloor>" by (metis floor_of_int of_int_minus)
  with True show ?thesis by (simp add: round_half_even_def)
next
  case False
  have lo: "of_int \<lfloor>x\<rfloor> \<le> x" and hi: "x < of_int \<lfloor>x\<rfloor> + 1" by linarith+
  from False lo have lo': "of_int \<lfloor>x\<rfloor> < x" by (metis order_less_le)
  have c: "real_of_int (- \<lfloor>x\<rfloor> - 1) = - real_of_int \<lfloor>x\<rfloor> - 1" by simp
  have fl: "\<lfloor>- x\<rfloor> = - \<lfloor>x\<rfloor> - 1"
  proof (rule floor_unique)
    from hi c show "real_of_int (- \<lfloor>x\<rfloor> - 1) \<le> - x" by linarith
    from lo' c show "- x < real_of_int (- \<lfloor>x\<rfloor> - 1) + 1" by linarith
  qed
  have ev: "even (- \<lfloor>x\<rfloor> - 1) = odd \<lfloor>x\<rfloor>" by simp
  show ?thesis
    unfolding round_half_even_def fl ev using lo' hi by (auto simp add: algebra_simps)
qed

lemma div_mod_real:
  "real (n div 1000000) + real (n mod 1000000) / 1000000 = real n / 1000000"
proof -
  have "n = 1000000 * (n div 1000000) + n mod 1000000" by simp
  then have "real n = 1000000 * real (n div 1000000) + real (n mod 1000000)"
    by (metis of_nat_add of_nat_mult of_nat_numeral)
  then show ?thesis by (simp add: field_simps)
qed

lemma str_nat_no_space: "list_all (\<lambda>c. \<not> is_space c) (str_nat n)"
  using str_nat_digits [of n] by (simp add: list_all_iff digit_not_special)

lemma hd_str_nat: "\<exists>d ds. str_nat n = d # ds \<and> is_digit d"
  using str_nat_digits [of n] str_nat_not_Nil [of n] by (cases "str_nat n") simp_all

lemma sign_part_digit: "is_digit d \<Longrightarrow> sign_part (d # ds) = (1, d # ds)"
  by (simp add: sign_part_def digit_not_special)

lemma py_int_str_int: "py_int (str_int c) = Some c"
proof -
  obtain d ds where s: "str_nat (nat \<bar>c\<bar>) = d # ds" "is_digit d"
    using hd_str_nat by blast
  have dp: "digit_part (str_nat (nat \<bar>c\<bar>)) = (str_nat (nat \<bar>c\<bar>), [])"
    using digit_part_digits [of "str_nat (nat \<bar>c\<bar>)" "[]"] str_nat_digits str_nat_not_Nil by simp
  show ?thesis
  proof (cases "c < 0")
    case True
    then have e: "str_int c = CHR ''-'' # str_nat (nat \<bar>c\<bar>)" by (simp add: str_int_def)
    have "list_all (\<lambda>c. \<not> is_space c) (str_int c)"
      unfolding e using str_nat_no_space by (simp add: is_space_def)
    then have "py_strip (str_int c) = str_int c" by (rule py_strip_token)
    with e dp True show ?thesis
      by (simp add: py_int_def sign_part_def str_nat_not_Nil nat_of_digits_str_nat)
  next
    case False
    then have e: "str_int c = str_nat (nat \<bar>c\<bar>)" by (simp add: str_int_def)
    have "py_strip (str_int c) = str_int c"
      unfolding e using str_nat_no_space by (rule py_strip_token)
    moreover have "sign_part (str_int c) = (1, str_int c)"
      unfolding e s(1) using s(2) by (rule sign_part_digit)
    ultimately show ?thesis using e dp False
      by (simp add: py_int_def str_nat_not_Nil nat_of_digits_str_nat)
  qed
qed

text \<open>The unsigned part that the formatter writes for \<open>n\<close> millionths.\<close>

lemma decimal_literal_millionths:
  "decimal_literal (str_nat (n div 1000000) @ ''.'' @ pad6 (n mod 1000000))
   = Some (real n / 1000000)"
proof -
  have ip: "digit_part (str_nat (n div 1000000) @ (CHR ''.'' # pad6 (n mod 1000000)))
            = (str_nat (n div 1000000), CHR ''.'' # pad6 (n mod 1000000))"
    by (rule digit_part_digits) (simp_all add: str_nat_not_Nil str_nat_digits is_digit_def)
  have "pad6 (n mod 1000000) \<noteq> []" by (simp add: pad6_def)
  then have fp: "digit_part (pad6 (n mod 1000000)) = (pad6 (n mod 1000000), [])"
    using digit_part_digits [of "pad6 (n mod 1000000)" "[]"] pad6_digits by simp
  have "n mod 1000000 < 1000000" by simp
  then have v: "nat_of_digits (pad6 (n mod 1000000)) = n mod 1000000"
    by (rule nat_of_digits_pad6)
  show ?thesis
    using ip fp v div_mod_real [of n]
    by (simp add: decimal_literal_def str_nat_not_Nil nat_of_digits_str_nat length_pad6
        exponent_part_def scale10_def)
qed

lemma body_no_space:
  "list_all (\<lambda>c. \<not> is_space c) (str_nat i @ ''.'' @ pad6 m)"
proof -
  have "list_all (\<lambda>c. \<not> is_space c) (pad6 m)"
    using pad6_digits [of m] by (simp add: list_all_iff digit_not_special)
  moreover have "\<not> is_space (CHR ''.'')" by (simp add: is_space_def)
  ultimately show ?thesis using str_nat_no_space [of i] by simp
qed

lemma body_not_word:
  assumes "is_digit d"
  shows "map lower (d # ds) \<noteq> ''inf''" "map lower (d # ds) \<noteq> ''infinity''"
    "map lower (d # ds) \<noteq> ''nan''"
  using assms by (simp_all add: lower_digit digit_not_special)

lemma py_float_format_6f: "py_float (format_6f v) = Some (round_6 v)"
proof (cases v)
  case (Finite a)
  define n where "n = nat (round_half_even (\<bar>a\<bar> * 1000000))"
  define body where "body = str_nat (n div 1000000) @ ''.'' @ pad6 (n mod 1000000)"
  obtain d ds where b: "body = d # ds" "is_digit d"
    using hd_str_nat [of "n div 1000000"] by (auto simp add: body_def)
  have lit: "decimal_literal body = Some (real n / 1000000)"
    unfolding body_def by (rule decimal_literal_millionths)
  have ns: "list_all (\<lambda>c. \<not> is_space c) body"
    unfolding body_def by (rule body_no_space)
  have sp: "sign_part body = (1, body)"
    unfolding b(1) using b(2) by (rule sign_part_digit)
  have words: "map lower body \<noteq> ''inf''" "map lower body \<noteq> ''infinity''"
    "map lower body \<noteq> ''nan''"
    unfolding b(1) using b(2) by (rule body_not_word)+
  have rn: "real n = real_of_int (round_half_even (\<bar>a\<bar> * 1000000))"
    unfolding n_def using round_half_even_nonneg [of "\<bar>a\<bar> * 1000000"] by simp
  show ?thesis
  proof (cases "a < 0")
    case True
    then have f: "format_6f v = CHR ''-'' # body"
      by (simp add: Finite n_def body_def Let_def)
    have "list_all (\<lambda>c. \<not> is_space c) (CHR ''-'' # body)"
      using ns by (simp add: is_space_def)
    then have st: "py_strip (CHR ''-'' # body) = CHR ''-'' # body" by (rule py_strip_token)
    from True have "\<bar>a\<bar> * 1000000 = - (a * 1000000)" by simp
    then have "round_half_even (\<bar>a\<bar> * 1000000) = - round_half_even (a * 1000000)"
      by (simp only: round_half_even_minus)
    with rn have "- (real n / 1000000) = real_of_int (round_half_even (a * 1000000)) / 1000000"
      by simp
    with f st lit words show ?thesis
      by (simp add: py_float_def sign_part_def Finite)
  next
    case False
    then have f: "format_6f v = body"
      by (simp add: Finite n_def body_def Let_def)
    have st: "py_strip body = body" using ns by (rule py_strip_token)
    from False have "\<bar>a\<bar> = a" by simp
    with rn have "real n / 1000000 = real_of_int (round_half_even (a * 1000000)) / 1000000"
      by simp
    with f st sp lit words show ?thesis
      by (simp add: py_float_def Finite)
  qed
next
  case PInf
  then show ?thesis
    by (simp add: py_float_def py_strip_def is_space_def sign_part_def lower_def)
next
  case NInf
  then show ?thesis
    by (simp add: py_float_def py_strip_def is_space_def sign_part_def lower_def)
next
  case NaN
  then show ?thesis
    by (simp add: py_float_def py_strip_def is_space_def sign_part_def lower_def)
qed

lemma format_6f_token: "format_6f v \<noteq> [] \<and> list_all (\<lambda>c. \<not> is_space c) (format_6f v)"
proof (cases v)
  case (Finite a)
  then show ?thesis
    using body_no_space by (simp add: Let_def is_space_def str_nat_not_Nil)
qed (simp_all add: is_space_def)

lemma str_int_token: "str_int c \<noteq> [] \<and> list_all (\<lambda>c. \<not> is_space c) (str_int c)"
  using str_nat_no_space by (simp add: str_int_def str_nat_not_Nil is_space_def)

lemma parse_line_label_line: "parse_line (label_line l) = Some (round_label l)"
proof -
  have sp: "py_split (py_strip (label_line l))
        = [str_int (class_id l), format_6f (x_center l), format_6f (y_center l),
           format_6f (width l), format_6f (height l), format_6f (angle l)]"
    unfolding py_split_strip label_line_def
    by (rule split_six) (simp add: format_6f_token str_int_token)
  show ?thesis
    unfolding parse_line_def sp
    by (simp add: py_int_str_int py_float_format_6f round_label_def)
qed

lemma map_filter_label_lines:
  "List.map_filter parse_line (map label_line ls) = map round_label ls"
  by (induction ls) (simp_all add: List.map_filter_simps parse_line_label_line)

lemma thirds_tool_fields:
  "image_files thirds_tool = [''image.png'']" "current_index thirds_tool = 0"
  "labels thirds_tool = [thirds_box]" "classes thirds_tool = [''object'']"
  "class_id thirds_box = 2"
  by (simp_all add: thirds_tool_def blank_200x100_eq initial_tool_def update_class_list_def
      thirds_box_def)

lemma round_label_thirds_box:
  "round_label thirds_box
   = \<lparr>class_id = 2, x_center = Finite (333333 / 1000000), y_center = Finite (1 / 2),
       width = Finite (7812 / 1000000), height = Finite (2 / 5),
       angle = Finite (- 12345679 / 1000000)\<rparr>"
  by (simp add: round_label_def thirds_box_def round_half_even_def)

lemma label_line_thirds_box:
  "label_line thirds_box = ''2 0.333333 0.500000 0.007812 0.400000 -12.345679'' @ [CHR 0x0A]"
  by (simp add: label_line_def thirds_box_def str_int_def round_half_even_def pad6_def
      str_nat.simps digit_char_def)


text \<open>
  C5. With an image current, a label file that can be written and labels that the class
  table can name (as it can every label with a non-negative class id), a save followed by a
  load from the file it wrote gives back the labels in the same number and order, each with
  its class id and with its centre, width, height and angle rounded to six decimal places;
  this holds for labels in range and for any others. The rounded value is within half a
  millionth of the original.
\<close>

theorem save_load_round_trip:
  assumes "image_files st \<noteq> []" and "0 \<le> current_index st"
    and "current_index st < int (length (image_files st))"
    and "f = Missing \<or> f = Opened old \<or> f = Unreadable old e"
    and "list_all (nameable st) (labels st)"
  shows "labels_after (save_then_load f st) = Inr (map round_label (labels st))
       \<and> length (map round_label (labels st)) = length (labels st)
       \<and> map class_id (map round_label (labels st)) = map class_id (labels st)
       \<and> round_6 (Finite a) = Finite (real_of_int (round_half_even (a * 1000000)) / 1000000)
       \<and> \<bar>real_of_int (round_half_even (a * 1000000)) / 1000000 - a\<bar> \<le> 1 / 2000000"
proof -
  have s: "save_labels f st
           = Inr (st\<lparr>status_bar := LabelsSaved\<rparr>, Opened (map label_line (labels st)))"
    using assms(1-4) by (auto simp add: save_labels_def load_defs)
  have n: "list_all (nameable st) (map round_label (labels st))"
    using assms(5) by (simp add: list_all_iff nameable_def round_label_def)
  have l: "load_yolo_labels (Opened (map label_line (labels st))) (st\<lparr>status_bar := LabelsSaved\<rparr>)
           = Inr (st\<lparr>status_bar := LabelsSaved, labels := map round_label (labels st)\<rparr>)"
    using assms(1-3) n
    by (simp add: load_defs read_labels_append map_filter_label_lines read_label_file_def
        update_labels_list_nameable nameable_updates)
  have r: "labels_after (save_then_load f st) = Inr (map round_label (labels st))"
    by (simp add: save_then_load_def s l then_do_def labels_after_def)
  have c: "map class_id (map round_label (labels st)) = map class_id (labels st)"
    by (simp add: round_label_def comp_def)
  have "\<bar>real_of_int (round_half_even (a * 1000000)) - a * 1000000\<bar> \<le> 1 / 2"
    by (rule round_half_even_close)
  then have d: "\<bar>real_of_int (round_half_even (a * 1000000)) / 1000000 - a\<bar> \<le> 1 / 2000000"
    by (simp add: field_simps abs_le_iff)
  from r c d show ?thesis by simp
qed

theorem save_load_round_trip_witness:
  "image_files thirds_tool \<noteq> [] \<and> 0 \<le> current_index thirds_tool
   \<and> current_index thirds_tool < int (length (image_files thirds_tool))
   \<and> labels thirds_tool = [thirds_box]
   \<and> list_all (nameable thirds_tool) (labels thirds_tool)
   \<and> label_line thirds_box = ''2 0.333333 0.500000 0.007812 0.400000 -12.345679'' @ [CHR 0x0A]
   \<and> labels_after (save_then_load Missing thirds_tool)
     = Inr [\<lparr>class_id = 2, x_center = Finite (333333 / 1000000), y_center = Finite (1 / 2),
              width = Finite (7812 / 1000000), height = Finite (2 / 5),
              angle = Finite (- 12345679 / 1000000)\<rparr>]"
  using save_load_round_trip [where st = thirds_tool and f = Missing and old = "[]" and e = "[]" and a = 0]
  by (simp add: thirds_tool_fields round_label_thirds_box label_line_thirds_box nameable_def)

text \<open>A label that the class table cannot name comes back from the file all the same, but
  the load that reads it raises.\<close>

lemma save_load_unnameable_raises:
  assumes "image_files st \<noteq> []" and "0 \<le> current_index st"
    and "current_index st < int (length (image_files st))"
    and "\<not> list_all (nameable st) (labels st)"
  shows "save_then_load Missing st = Inl IndexError"
    and "labels (read_label_file (Opened (map label_line (labels st))) st)
         = map round_label (labels st)"
proof -
  have n: "\<not> list_all (nameable st) (map round_label (labels st))"
    using assms(4) by (simp add: list_all_iff nameable_def round_label_def)
  with assms(1-3) show "save_then_load Missing st = Inl IndexError"
    by (simp add: save_then_load_def save_labels_def load_defs read_labels_append
        map_filter_label_lines read_label_file_def update_labels_list_nameable nameable_updates)
  show "labels (read_label_file (Opened (map label_line (labels st))) st)
         = map round_label (labels st)"
    by (simp add: read_label_file_def read_labels_append map_filter_label_lines)
qed

end
